(* ===== verification/Prelude.thy ===== *)
theory Prelude
  imports Complex_Main "HOL-Library.Word"
begin

text \<open>
  The Python runtime the handler in \<^verbatim>\<open>src/lambda/Place-Order.py\<close> relies on, as far as
  its logic depends on it: the string methods \<^verbatim>\<open>str.lower\<close>, \<^verbatim>\<open>str.upper\<close> and
  \<^verbatim>\<open>str.split\<close>, negative indexing \<^verbatim>\<open>xs[-1]\<close>, decoded JSON values with Python's
  truthiness and \<^verbatim>\<open>dict.get\<close>, and the observable events of a request (log lines and
  outbound calls) that the component theories append to a trace.
  Strings are \<^typ>\<open>string\<close>, lists of 8-bit characters: case mapping is ASCII case mapping,
  which is what Python's Unicode case mapping does on ASCII text.
\<close>

named_theorems py_simps \<open>evaluation rules for the Python runtime helpers\<close>

declare char_of_eq_iff [py_simps]

section \<open>Strings\<close>

definition py_lower_char :: "char \<Rightarrow> char" where
  "py_lower_char c =
     (let n = of_char c :: nat in if 65 \<le> n \<and> n \<le> 90 then char_of (n + 32) else c)"

definition py_upper_char :: "char \<Rightarrow> char" where
  "py_upper_char c =
     (let n = of_char c :: nat in if 97 \<le> n \<and> n \<le> 122 then char_of (n - 32) else c)"

definition py_lower :: "string \<Rightarrow> string" where
  "py_lower s = map py_lower_char s"

definition py_upper :: "string \<Rightarrow> string" where
  "py_upper s = map py_upper_char s"

declare py_lower_char_def [py_simps] py_upper_char_def [py_simps]
  py_lower_def [py_simps] py_upper_def [py_simps]

text \<open>
  \<^verbatim>\<open>s.split(d)\<close> with a one-character separator: every occurrence of \<open>d\<close> cuts, empty
  fields are kept, and the result is never empty (\<^verbatim>\<open>''.split('@') == ['']\<close>).
\<close>

fun py_split :: "char \<Rightarrow> string \<Rightarrow> string list" where
  "py_split d [] = [[]]"
| "py_split d (c # cs) =
     (if c = d then [] # py_split d cs
      else (case py_split d cs of [] \<Rightarrow> [[c]] | w # ws \<Rightarrow> (c # w) # ws))"

text \<open>\<^verbatim>\<open>d.join(ws)\<close>, the inverse of splitting.\<close>

fun py_join :: "char \<Rightarrow> string list \<Rightarrow> string" where
  "py_join d [] = []"
| "py_join d [w] = w"
| "py_join d (w # ws) = w @ d # py_join d ws"

text \<open>\<^verbatim>\<open>xs[-1]\<close>: \<open>None\<close> is the \<^verbatim>\<open>IndexError\<close> an empty list raises.\<close>

definition py_last :: "'a list \<Rightarrow> 'a option" where
  "py_last xs = (if xs = [] then None else Some (last xs))"

section \<open>JSON values\<close>

text \<open>
  A decoded JSON document as Python holds it; an object is the \<^verbatim>\<open>dict\<close> that
  \<^verbatim>\<open>json.loads\<close> builds, an association list with distinct keys.
\<close>

datatype json =
    JNull
  | JBool bool
  | JInt int
  | JFloat real
  | JStr string
  | JArr "json list"
  | JObj "(string \<times> json) list"

text \<open>Python's truth value of a decoded JSON value (\<^verbatim>\<open>if not x\<close>).\<close>

fun py_truthy :: "json \<Rightarrow> bool" where
  "py_truthy JNull = False"
| "py_truthy (JBool b) = b"
| "py_truthy (JInt i) = (i \<noteq> 0)"
| "py_truthy (JFloat r) = (r \<noteq> 0)"
| "py_truthy (JStr s) = (s \<noteq> [])"
| "py_truthy (JArr xs) = (xs \<noteq> [])"
| "py_truthy (JObj kvs) = (kvs \<noteq> [])"

text \<open>
  \<^verbatim>\<open>x.get(k, dflt)\<close>: only a \<^verbatim>\<open>dict\<close> has the method; on any other value the call
  raises \<^verbatim>\<open>AttributeError\<close>, here \<open>None\<close>.
\<close>

fun json_get :: "json \<Rightarrow> string \<Rightarrow> json \<Rightarrow> json option" where
  "json_get (JObj kvs) k dflt = Some (case map_of kvs k of None \<Rightarrow> dflt | Some v \<Rightarrow> v)"
| "json_get _ k dflt = None"

text \<open>\<^verbatim>\<open>type(x).__name__\<close> of a decoded JSON value, and the message of the
  \<^verbatim>\<open>AttributeError\<close> that \<^verbatim>\<open>x.get\<close> raises on it.\<close>

fun py_type_name :: "json \<Rightarrow> string" where
  "py_type_name JNull = ''NoneType''"
| "py_type_name (JBool _) = ''bool''"
| "py_type_name (JInt _) = ''int''"
| "py_type_name (JFloat _) = ''float''"
| "py_type_name (JStr _) = ''str''"
| "py_type_name (JArr _) = ''list''"
| "py_type_name (JObj _) = ''dict''"

definition no_get_msg :: "json \<Rightarrow> string" where
  "no_get_msg x = [CHR 39] @ py_type_name x @ [CHR 39] @ '' object has no attribute '' @ [CHR 39] @ ''get'' @ [CHR 39]"

section \<open>Observable events\<close>

text \<open>
  What a request does besides computing its response: lines it prints to the log and the
  calls it makes to the outside (DNS queries, the Turnstile verification POST, the SES
  \<^verbatim>\<open>send_email\<close> calls, with source, destination, subject and HTML body). Components return their result with the events they caused,
  in order.
\<close>

datatype rdtype = MX | NS

datatype event =
    Print string
  | DnsResolve string rdtype
  | TurnstilePost string "string option" string
  | SesSendEmail "string option" "string option" string string

type_synonym 'a traced = "'a \<times> event list"

text \<open>An exception other than FastAPI's \<^verbatim>\<open>HTTPException\<close>, with the text \<^verbatim>\<open>str(e)\<close> prints.\<close>

datatype exn = Exn string

definition is_ses_send :: "event \<Rightarrow> bool" where
  "is_ses_send e = (case e of SesSendEmail _ _ _ _ \<Rightarrow> True | _ \<Rightarrow> False)"

definition is_outbound :: "event \<Rightarrow> bool" where
  "is_outbound e = (case e of Print _ \<Rightarrow> False | _ \<Rightarrow> True)"

declare is_ses_send_def [py_simps] is_outbound_def [py_simps]

section \<open>Lemmas on the helpers\<close>

lemma length_py_lower [simp]: "length (py_lower s) = length s"
  by (simp add: py_lower_def)

lemma length_py_upper [simp]: "length (py_upper s) = length s"
  by (simp add: py_upper_def)

lemma py_split_not_Nil [simp]: "py_split d s \<noteq> []"
  by (induction s) (auto split: list.splits)

lemma py_split_Cons_other:
  "c \<noteq> d \<Longrightarrow> py_split d (c # cs) = (c # hd (py_split d cs)) # tl (py_split d cs)"
  by (cases "py_split d cs") auto

lemma py_split_no_sep: "w \<in> set (py_split d s) \<Longrightarrow> d \<notin> set w"
proof (induction s arbitrary: w)
  case Nil
  then show ?case by simp
next
  case (Cons c cs)
  show ?case
  proof (cases "c = d")
    case True
    with Cons show ?thesis by auto
  next
    case False
    obtain v vs where vs: "py_split d cs = v # vs"
      by (cases "py_split d cs") auto
    with Cons.prems False have "w = c # v \<or> w \<in> set vs" by simp
    with Cons.IH vs False show ?thesis by auto
  qed
qed

lemma py_split_no_sep_self: "d \<notin> set s \<Longrightarrow> py_split d s = [s]"
  by (induction s) auto

lemma last_py_split_append: "d \<notin> set r \<Longrightarrow> last (py_split d (l @ d # r)) = r"
proof (induction l)
  case Nil
  then show ?case by (simp add: py_split_no_sep_self)
next
  case (Cons c cs)
  show ?case
  proof (cases "c = d")
    case True
    with Cons show ?thesis by simp
  next
    case False
    have "tl (py_split d (cs @ d # r)) \<noteq> []"
    proof (induction cs)
      case Nil
      then show ?case by simp
    next
      case (Cons x xs)
      then show ?case by (cases "py_split d (xs @ d # r)") auto
    qed
    moreover obtain v vs where vs: "py_split d (cs @ d # r) = v # vs"
      by (cases "py_split d (cs @ d # r)") auto
    ultimately show ?thesis
      using Cons False by simp
  qed
qed

lemma py_join_split: "py_join d (py_split d s) = s"
proof (induction s)
  case Nil
  then show ?case by simp
next
  case (Cons c cs)
  obtain v vs where vs: "py_split d cs = v # vs"
    by (cases "py_split d cs") auto
  with Cons show ?case by (cases vs) auto
qed

lemma concat_map_if_filter:
  "concat (map (\<lambda>t. if P t then f t else []) xs) = concat (map f (filter P xs))"
  by (induction xs) auto

lemma py_last_py_split [simp]: "py_last (py_split d s) = Some (last (py_split d s))"
  by (simp add: py_last_def)

section \<open>Deterministic relations\<close>

text \<open>
  A deterministic step relation ends every run in at most one final configuration: what the
  state-machine models use to show that their runs compute a function.
\<close>

lemma deterministic_final_unique:
  assumes det: "\<And>x y z. R x y \<Longrightarrow> R x z \<Longrightarrow> y = z"
    and "R\<^sup>*\<^sup>* a b" "R\<^sup>*\<^sup>* a c" "\<nexists>d. R b d" "\<nexists>d. R c d"
  shows "b = c"
  using assms(2-)
proof (induction rule: converse_rtranclp_induct)
  case base
  then show ?case by (auto elim: converse_rtranclpE)
next
  case (step a a')
  from step.prems(1) show ?case
  proof (cases rule: converse_rtranclpE)
    case base
    with step.hyps(1) step.prems(3) show ?thesis by blast
  next
    case (step a'')
    with det [OF step.hyps(1)] have "R\<^sup>*\<^sup>* a' c" by blast
    with step.IH step.prems show ?thesis by blast
  qed
qed

lemma rtranclp_eq_refl: "c = c' \<Longrightarrow> R\<^sup>*\<^sup>* c c'"
  by simp

lemma relpowp_rank_bound:
  assumes "\<And>x y. R x y \<Longrightarrow> rk y < (rk x :: nat)"
  shows "(R ^^ n) x z \<Longrightarrow> n \<le> rk x"
proof (induction n arbitrary: x)
  case (Suc n)
  then obtain y where "R x y" "(R ^^ n) y z" by (blast dest: relpowp_Suc_D2)
  with Suc.IH assms [of x y] show ?case by fastforce
qed simp

end
