(* ===== verification/Regex.thy ===== *)
theory Regex
  imports Prelude
begin

text \<open>
  The phone-number check of \<^verbatim>\<open>OrderRequest.validate_phone_format\<close>
  (\<^verbatim>\<open>src/lambda/Place-Order.py\<close>, lines 39 and 94--98):
  \<^verbatim>\<open>PHONE_PATTERN = re.compile(r'^(\+?1 *[ -.])?(\d{3}) *[ .-]?(\d{3}) *[ .-]?(\d{4}) *$')\<close>
  and \<^verbatim>\<open>if not PHONE_PATTERN.match(v)\<close>.
  A Python \<^verbatim>\<open>str\<close> is a sequence of code points; the model's strings are its UTF-8 bytes,
  and \<open>utf8_decode\<close> gives back the code points the regex engine sees.
  The pattern is a value of a small regular-expression datatype with exactly the constructs
  it uses: classes of code points given by ranges, concatenation, \<^verbatim>\<open>?\<close>, \<^verbatim>\<open>*\<close>,
  \<^verbatim>\<open>{n}\<close> and \<^verbatim>\<open>$\<close> (which in Python also matches just before a final newline).
  In a \<^verbatim>\<open>str\<close> pattern \<^verbatim>\<open>\d\<close> is every Unicode decimal digit (category Nd), the
  62 ranges of \<open>nd_ranges\<close>, as in the Unicode 14.0 tables of CPython 3.11.
  \<^verbatim>\<open>re.match\<close> anchors at the start of the string.
  \<open>rem\<close> is the backtracking matcher: the list of the remainders of the input after every
  way of matching a prefix, in the order Python's engine tries them (greedy \<^verbatim>\<open>?\<close> and
  \<^verbatim>\<open>*\<close>, a star iteration must consume input). \<^verbatim>\<open>match\<close> succeeds when that list is
  non-empty. \<open>matches\<close> is the declarative semantics as an inductive relation.
  The lemmas show the matcher equal to the relation, count the decimal digits an accepted
  phone number contains, show the formats the spec names accepted, and state the inputs on
  which the pattern departs from the spec's description.
\<close>

section \<open>Python strings as code points\<close>

text \<open>A continuation byte \<^verbatim>\<open>10xxxxxx\<close> and the six bits it carries.\<close>

definition utf8_cont :: "nat \<Rightarrow> string \<Rightarrow> bool" where
  "utf8_cont n s =
     (n \<le> length s \<and> list_all (\<lambda>c. 128 \<le> (of_char c :: nat) \<and> of_char c < (192 :: nat)) (take n s))"

definition cval :: "char \<Rightarrow> nat" where
  "cval c = of_char c - 128"

text \<open>The code point a lead byte starts and the bytes after it; a malformed sequence,
  which the encoding of a \<^verbatim>\<open>str\<close> never produces, reads as U+FFFD.\<close>

definition utf8_char :: "char \<Rightarrow> string \<Rightarrow> nat \<times> string" where
  "utf8_char a s =
     (let b = of_char a :: nat
      in if b < 128 then (b, s)
         else if 194 \<le> b \<and> b < 224 \<and> utf8_cont 1 s then ((b - 192) * 64 + cval (s ! 0), drop 1 s)
         else if 224 \<le> b \<and> b < 240 \<and> utf8_cont 2 s
         then ((b - 224) * 4096 + cval (s ! 0) * 64 + cval (s ! 1), drop 2 s)
         else if 240 \<le> b \<and> b < 245 \<and> utf8_cont 3 s
         then ((b - 240) * 262144 + cval (s ! 0) * 4096 + cval (s ! 1) * 64 + cval (s ! 2), drop 3 s)
         else (65533, s))"

function utf8_decode :: "string \<Rightarrow> nat list" where
  "utf8_decode [] = []"
| "utf8_decode (a # s) = (case utf8_char a s of (cp, rest) \<Rightarrow> cp # utf8_decode rest)"
  by pat_completeness auto
termination
  by (relation "measure length") (auto simp: utf8_char_def Let_def split: if_splits)

section \<open>Regular expressions and the backtracking matcher\<close>

datatype rx =
    Cls "(nat \<times> nat) list"
  | Seq rx rx
  | Opt rx
  | Star rx
  | Rep nat rx
  | Dollar
  | Empty

definition in_cls :: "nat \<Rightarrow> (nat \<times> nat) list \<Rightarrow> bool" where
  "in_cls c rs = list_ex (\<lambda>(lo, hi). lo \<le> c \<and> c \<le> hi) rs"

fun rx_weight :: "rx \<Rightarrow> nat" where
  "rx_weight (Seq a b) = rx_weight a + rx_weight b + 1"
| "rx_weight (Opt r) = rx_weight r + 1"
| "rx_weight (Star r) = rx_weight r + 1"
| "rx_weight (Rep n r) = (n + 1) * (rx_weight r + 1)"
| "rx_weight _ = 1"

function rem :: "rx \<Rightarrow> nat list \<Rightarrow> nat list list" where
  "rem (Cls rs) [] = []"
| "rem (Cls rs) (c # s) = (if in_cls c rs then [s] else [])"
| "rem (Seq a b) s = concat (map (rem b) (rem a s))"
| "rem (Opt r) s = rem r s @ [s]"
| "rem (Star r) s =
     concat (map (\<lambda>t. if length t < length s then rem (Star r) t else []) (rem r s)) @ [s]"
| "rem (Rep 0 r) s = [s]"
| "rem (Rep (Suc n) r) s = concat (map (rem (Rep n r)) (rem r s))"
| "rem Dollar s = (if s = [] \<or> s = [10] then [s] else [])"
| "rem Empty s = [s]"
  by pat_completeness auto
termination
  by (relation "measures [\<lambda>(r, s). rx_weight r, \<lambda>(r, s). length s]") auto

definition re_match :: "rx \<Rightarrow> string \<Rightarrow> bool" where
  "re_match r s = (rem r (utf8_decode s) \<noteq> [])"

section \<open>The phone pattern\<close>

text \<open>The code points of category Nd, which \<^verbatim>\<open>\d\<close> matches.\<close>

definition nd_ranges :: "(nat \<times> nat) list" where
  "nd_ranges = [(48, 57), (1632, 1641), (1776, 1785), (1984, 1993), (2406, 2415), (2534, 2543),
      (2662, 2671), (2790, 2799), (2918, 2927), (3046, 3055), (3174, 3183), (3302, 3311),
      (3430, 3439), (3558, 3567), (3664, 3673), (3792, 3801), (3872, 3881), (4160, 4169),
      (4240, 4249), (6112, 6121), (6160, 6169), (6470, 6479), (6608, 6617), (6784, 6793),
      (6800, 6809), (6992, 7001), (7088, 7097), (7232, 7241), (7248, 7257), (42528, 42537),
      (43216, 43225), (43264, 43273), (43472, 43481), (43504, 43513), (43600, 43609),
      (44016, 44025), (65296, 65305), (66720, 66729), (68912, 68921), (69734, 69743),
      (69872, 69881), (69942, 69951), (70096, 70105), (70384, 70393), (70736, 70745),
      (70864, 70873), (71248, 71257), (71360, 71369), (71472, 71481), (71904, 71913),
      (72016, 72025), (72784, 72793), (73040, 73049), (73120, 73129), (92768, 92777),
      (92864, 92873), (93008, 93017), (120782, 120831), (123200, 123209), (123632, 123641),
      (125264, 125273), (130032, 130041)]"

definition digit :: rx where
  "digit = Cls nd_ranges"

text \<open>A space (U+0020).\<close>

definition sp :: rx where
  "sp = Cls [(32, 32)]"

text \<open>\<^verbatim>\<open>[ .-]\<close>: a space, a dot (U+002E) or a hyphen (U+002D).\<close>

definition sep :: rx where
  "sep = Cls [(32, 32), (46, 46), (45, 45)]"

text \<open>\<^verbatim>\<open>\+?1 *[ -.]\<close>: a plus (U+002B), a one (U+0031), spaces and the class
  \<^verbatim>\<open>[ -.]\<close>, which is the range from space to dot, U+0020 to U+002E.\<close>

definition country_code :: rx where
  "country_code = Seq (Opt (Cls [(43, 43)])) (Seq (Cls [(49, 49)]) (Seq (Star sp) (Cls [(32, 46)])))"

definition PHONE_PATTERN :: rx where
  "PHONE_PATTERN =
     Seq (Opt country_code)
     (Seq (Rep 3 digit) (Seq (Star sp) (Seq (Opt sep)
     (Seq (Rep 3 digit) (Seq (Star sp) (Seq (Opt sep)
     (Seq (Rep 4 digit) (Seq (Star sp) Dollar))))))))"

text \<open>A phone number in Arabic-Indic digits, as UTF-8: U+0665 U+0665 U+0665, a hyphen,
  U+0661 U+0662 U+0663, a hyphen, U+0664 U+0665 U+0666 U+0667.\<close>

definition phone_arabic_indic :: string where
  "phone_arabic_indic =
     [CHR 0xD9, CHR 0xA5, CHR 0xD9, CHR 0xA5, CHR 0xD9, CHR 0xA5, CHR ''-'',
      CHR 0xD9, CHR 0xA1, CHR 0xD9, CHR 0xA2, CHR 0xD9, CHR 0xA3, CHR ''-'',
      CHR 0xD9, CHR 0xA4, CHR 0xD9, CHR 0xA5, CHR 0xD9, CHR 0xA6, CHR 0xD9, CHR 0xA7]"

section \<open>Declarative semantics\<close>

text \<open>\<open>matches r s t\<close>: \<open>r\<close> matches a prefix of \<open>s\<close>, leaving \<open>t\<close>.\<close>

inductive matches :: "rx \<Rightarrow> nat list \<Rightarrow> nat list \<Rightarrow> bool" where
  m_cls: "in_cls c rs \<Longrightarrow> matches (Cls rs) (c # s) s"
| m_seq: "matches a s t \<Longrightarrow> matches b t u \<Longrightarrow> matches (Seq a b) s u"
| m_opt_some: "matches r s t \<Longrightarrow> matches (Opt r) s t"
| m_opt_none: "matches (Opt r) s s"
| m_star_step: "matches r s t \<Longrightarrow> length t < length s \<Longrightarrow> matches (Star r) t u
    \<Longrightarrow> matches (Star r) s u"
| m_star_done: "matches (Star r) s s"
| m_rep_zero: "matches (Rep 0 r) s s"
| m_rep_suc: "matches r s t \<Longrightarrow> matches (Rep n r) t u \<Longrightarrow> matches (Rep (Suc n) r) s u"
| m_dollar: "s = [] \<or> s = [10] \<Longrightarrow> matches Dollar s s"
| m_empty: "matches Empty s s"

section \<open>Digit counting\<close>

text \<open>An ASCII digit \<^verbatim>\<open>0\<close>--\<^verbatim>\<open>9\<close>, the digits the spec has in mind, and a byte
  string that is all ASCII (\<^verbatim>\<open>str.isascii\<close>).\<close>

definition is_digit_char :: "char \<Rightarrow> bool" where
  "is_digit_char c = (48 \<le> (of_char c :: nat) \<and> of_char c \<le> (57 :: nat))"

abbreviation is_ascii :: "string \<Rightarrow> bool" where
  "is_ascii s \<equiv> list_all (\<lambda>c. of_char c < (128 :: nat)) s"

text \<open>The decimal digits of a sequence of code points: what \<^verbatim>\<open>\d\<close> counts.\<close>

definition ndig :: "nat list \<Rightarrow> nat" where
  "ndig s = length (filter (\<lambda>c. in_cls c nd_ranges) s)"

text \<open>How many digits one code point of a class can be: always one, never, or either.\<close>

definition cls_digits :: "(nat \<times> nat) list \<Rightarrow> nat \<times> nat" where
  "cls_digits rs =
     (if list_all (\<lambda>(lo, hi). list_ex (\<lambda>(a, b). a \<le> lo \<and> hi \<le> b) nd_ranges) rs then (1, 1)
      else if list_all (\<lambda>(lo, hi). list_all (\<lambda>(a, b). hi < a \<or> b < lo) nd_ranges) rs then (0, 0)
      else (0, 1))"

text \<open>Bounds on the number of digits a match consumes; \<open>None\<close> when unbounded.\<close>

fun dig_range :: "rx \<Rightarrow> (nat \<times> nat) option" where
  "dig_range (Cls rs) = Some (cls_digits rs)"
| "dig_range (Seq a b) =
     (case (dig_range a, dig_range b) of
        (Some (l1, h1), Some (l2, h2)) \<Rightarrow> Some (l1 + l2, h1 + h2)
      | _ \<Rightarrow> None)"
| "dig_range (Opt r) = map_option (\<lambda>(l, h). (0, h)) (dig_range r)"
| "dig_range (Star r) = (if dig_range r = Some (0, 0) then Some (0, 0) else None)"
| "dig_range (Rep n r) = map_option (\<lambda>(l, h). (n * l, n * h)) (dig_range r)"
| "dig_range Dollar = Some (0, 0)"
| "dig_range Empty = Some (0, 0)"

text \<open>A pattern whose last element is \<^verbatim>\<open>$\<close>.\<close>

fun anchored :: "rx \<Rightarrow> bool" where
  "anchored (Seq a b) = anchored b"
| "anchored Dollar = True"
| "anchored _ = False"

text \<open>The prefixes and separators of the spec's description of a phone number.\<close>

definition phone_prefixes :: "string list" where
  "phone_prefixes = [[], ''1 '', ''1-'', ''1.'', ''+1 '', ''+1-'', ''+1.'']"

definition phone_seps :: "string list" where
  "phone_seps = [[], '' '', ''.'', ''-'']"

text \<open>The pattern after its optional country code.\<close>

abbreviation phone_body :: rx where
  "phone_body \<equiv>
     Seq (Rep 3 digit) (Seq (Star sp) (Seq (Opt sep)
     (Seq (Rep 3 digit) (Seq (Star sp) (Seq (Opt sep)
     (Seq (Rep 4 digit) (Seq (Star sp) Dollar)))))))"

section \<open>Decoding\<close>

declare utf8_decode.simps(2) [simp del]

lemma utf8_decode_ascii_Cons [simp]:
  "of_char a < (128 :: nat) \<Longrightarrow> utf8_decode (a # s) = of_char a # utf8_decode s"
  by (simp add: utf8_decode.simps(2) utf8_char_def)

lemma utf8_decode_append_ascii: "is_ascii xs \<Longrightarrow> utf8_decode (xs @ ys) = map of_char xs @ utf8_decode ys"
  by (induction xs) simp_all

lemma utf8_decode_ascii: "is_ascii s \<Longrightarrow> utf8_decode s = map of_char s"
  using utf8_decode_append_ascii [of s "[]"] by simp

lemma digits_ascii: "list_all is_digit_char w \<Longrightarrow> is_ascii w"
  by (auto simp: is_digit_char_def list_all_iff)

lemmas utf8_eval = utf8_decode.simps utf8_char_def utf8_cont_def cval_def

section \<open>Evaluation rules\<close>

lemma rem_Star:
  "rem (Star r) s = concat (map (rem (Star r)) (filter (\<lambda>t. length t < length s) (rem r s))) @ [s]"
  by (subst rem.simps(5)) (simp only: concat_map_if_filter)

declare rem.simps(5) [simp del]

lemma rem_Rep_numeral [simp]:
  "rem (Rep (numeral k) r) s = concat (map (rem (Rep (pred_numeral k) r)) (rem r s))"
  by (simp add: numeral_eq_Suc)

lemma mem_rem_Star:
  "t \<in> set (rem (Star r) s) \<longleftrightarrow>
     t = s \<or> (\<exists>x \<in> set (rem r s). length x < length s \<and> t \<in> set (rem (Star r) x))"
  by (subst rem_Star) auto

text \<open>Everything \<open>simp\<close> needs to run the phone pattern on a concrete ASCII string.\<close>

lemmas pat_defs = PHONE_PATTERN_def country_code_def digit_def nd_ranges_def sp_def sep_def in_cls_def
  re_match_def rem_Star

inductive_cases matches_SeqE: "matches (Seq a b) s u"
inductive_cases matches_OptE: "matches (Opt r) s t"
inductive_cases matches_ClsE: "matches (Cls rs) s t"

section \<open>The matcher computes the declarative semantics\<close>

lemma rem_sound: "t \<in> set (rem r s) \<Longrightarrow> matches r s t"
proof (induction r s arbitrary: t rule: rem.induct)
  case (1 rs)
  then show ?case by simp
next
  case (2 rs c s)
  then show ?case by (simp add: m_cls split: if_splits)
next
  case (3 a b s)
  from "3.prems" obtain x where "x \<in> set (rem a s)" "t \<in> set (rem b x)" by auto
  with "3.IH" show ?case by (blast intro: m_seq)
next
  case (4 r s)
  from "4.prems" consider "t \<in> set (rem r s)" | "t = s" by auto
  then show ?case
    by cases (simp_all add: "4.IH" m_opt_some m_opt_none)
next
  case (5 r s)
  from "5.prems" consider "t = s"
    | x where "x \<in> set (rem r s)" "length x < length s" "t \<in> set (rem (Star r) x)"
    using mem_rem_Star [THEN iffD1, OF "5.prems"] by blast
  then show ?case
  proof cases
    case 1
    then show ?thesis by (simp add: m_star_done)
  next
    case 2
    then show ?thesis using "5.IH" by (blast intro: m_star_step)
  qed
next
  case (6 r s)
  then show ?case by (simp add: m_rep_zero)
next
  case (7 n r s)
  from "7.prems" obtain x where "x \<in> set (rem r s)" "t \<in> set (rem (Rep n r) x)" by auto
  with "7.IH" show ?case by (blast intro: m_rep_suc)
next
  case (8 s)
  then show ?case by (simp add: m_dollar split: if_splits)
next
  case (9 s)
  then show ?case by (simp add: m_empty)
qed

lemma rem_complete: "matches r s t \<Longrightarrow> t \<in> set (rem r s)"
proof (induction rule: matches.induct)
  case (m_star_step r s t u)
  then show ?case by (blast intro: mem_rem_Star [THEN iffD2])
next
  case (m_star_done r s)
  then show ?case by (blast intro: mem_rem_Star [THEN iffD2])
qed auto

lemma rem_iff_matches: "t \<in> set (rem r s) \<longleftrightarrow> matches r s t"
  using rem_sound rem_complete by blast

lemma re_match_iff: "re_match r s \<longleftrightarrow> (\<exists>t. matches r (utf8_decode s) t)"
  unfolding re_match_def using rem_sound rem_complete by (metis ex_in_conv set_empty)


section \<open>Digits in an accepted phone number\<close>

lemma ndig_Nil [simp]: "ndig [] = 0"
  by (simp add: ndig_def)

lemma ndig_append [simp]: "ndig (xs @ ys) = ndig xs + ndig ys"
  by (simp add: ndig_def)

lemma ndig_newline [simp]: "ndig [10] = 0"
  by (simp add: ndig_def in_cls_def nd_ranges_def)

lemma ascii_digit_nd: "is_digit_char c \<Longrightarrow> in_cls (of_char c) nd_ranges"
  by (simp add: is_digit_char_def in_cls_def nd_ranges_def)

lemma ndig_ascii_digits: "list_all is_digit_char w \<Longrightarrow> ndig (map of_char w) = length w"
  by (induction w) (simp_all add: ndig_def ascii_digit_nd)

lemma cls_digits_bounds:
  assumes "in_cls c rs" "cls_digits rs = (lo, hi)"
  shows "lo \<le> ndig [c] \<and> ndig [c] \<le> hi"
proof -
  from assms(1) obtain a b where ab: "(a, b) \<in> set rs" "a \<le> c" "c \<le> b"
    by (auto simp: in_cls_def list_ex_iff)
  have nd: "ndig [c] = (if in_cls c nd_ranges then 1 else 0)"
    by (simp add: ndig_def)
  show ?thesis
  proof (cases "list_all (\<lambda>(lo, hi). list_ex (\<lambda>(a, b). a \<le> lo \<and> hi \<le> b) nd_ranges) rs")
    case True
    with ab obtain x y where xy: "(x, y) \<in> set nd_ranges" "x \<le> a" "b \<le> y"
      by (fastforce simp: list_all_iff list_ex_iff)
    have "in_cls c nd_ranges"
      unfolding in_cls_def list_ex_iff using ab xy by (intro bexI [of _ "(x, y)"]) auto
    with True assms(2) nd show ?thesis by (simp add: cls_digits_def)
  next
    case False
    show ?thesis
    proof (cases "list_all (\<lambda>(lo, hi). list_all (\<lambda>(a, b). hi < a \<or> b < lo) nd_ranges) rs")
      case True
      with ab have "\<not> in_cls c nd_ranges"
        by (fastforce simp: in_cls_def list_ex_iff list_all_iff)
      with True False assms(2) nd show ?thesis by (simp add: cls_digits_def)
    next
      case False2: False
      with False assms(2) nd show ?thesis by (simp add: cls_digits_def)
    qed
  qed
qed

lemma matches_dig_range:
  "matches r s t \<Longrightarrow> dig_range r = Some (lo, hi) \<Longrightarrow>
     \<exists>w. s = w @ t \<and> lo \<le> ndig w \<and> ndig w \<le> hi"
proof (induction arbitrary: lo hi rule: matches.induct)
  case (m_cls c rs s)
  then have "cls_digits rs = (lo, hi)" by simp
  with m_cls.hyps have "lo \<le> ndig [c] \<and> ndig [c] \<le> hi" by (rule cls_digits_bounds)
  then show ?case by auto
next
  case (m_seq a s t b u)
  then obtain l1 h1 l2 h2 where r: "dig_range a = Some (l1, h1)" "dig_range b = Some (l2, h2)"
    and lh: "lo = l1 + l2" "hi = h1 + h2"
    by (auto split: option.splits prod.splits)
  obtain w1 where w1: "s = w1 @ t" "l1 \<le> ndig w1" "ndig w1 \<le> h1"
    using m_seq.IH(1) [OF r(1)] by blast
  obtain w2 where w2: "t = w2 @ u" "l2 \<le> ndig w2" "ndig w2 \<le> h2"
    using m_seq.IH(2) [OF r(2)] by blast
  have "s = (w1 @ w2) @ u" using w1(1) w2(1) by simp
  moreover have "lo \<le> ndig (w1 @ w2) \<and> ndig (w1 @ w2) \<le> hi"
    using w1 w2 lh by simp
  ultimately show ?case by blast
next
  case (m_opt_some r s t)
  then obtain l where r: "dig_range r = Some (l, hi)" and "lo = 0" by auto
  with m_opt_some.IH [OF r] show ?case by auto
next
  case (m_star_step r s t u)
  then have r: "dig_range r = Some (0, 0)" and lh: "lo = 0" "hi = 0" by (auto split: if_splits)
  obtain w1 where w1: "s = w1 @ t" "ndig w1 = 0"
    using m_star_step.IH(1) [OF r] by auto
  obtain w2 where w2: "t = w2 @ u" "ndig w2 = 0"
    using m_star_step.IH(2) [of 0 0] r by auto
  have "s = (w1 @ w2) @ u" using w1(1) w2(1) by simp
  with w1(2) w2(2) lh show ?case by (intro exI [of _ "w1 @ w2"]) simp
next
  case (m_rep_suc r s t n u)
  then obtain l h where r: "dig_range r = Some (l, h)" and lh: "lo = Suc n * l" "hi = Suc n * h"
    by auto
  obtain w1 where w1: "s = w1 @ t" "l \<le> ndig w1" "ndig w1 \<le> h"
    using m_rep_suc.IH(1) [OF r] by blast
  have "dig_range (Rep n r) = Some (n * l, n * h)" using r by simp
  then obtain w2 where w2: "t = w2 @ u" "n * l \<le> ndig w2" "ndig w2 \<le> n * h"
    using m_rep_suc.IH(2) by blast
  have "s = (w1 @ w2) @ u" using w1(1) w2(1) by simp
  moreover have "lo \<le> ndig (w1 @ w2) \<and> ndig (w1 @ w2) \<le> hi"
    using w1 w2 lh by simp
  ultimately show ?case by blast
qed (auto split: if_splits)

lemma matches_anchored: "matches r s t \<Longrightarrow> anchored r \<Longrightarrow> t = [] \<or> t = [10]"
  by (induction rule: matches.induct) auto


lemma matches_suffix: "matches r s t \<Longrightarrow> \<exists>w. s = w @ t"
  by (induction rule: matches.induct) auto

lemma cls_digits_nd: "cls_digits nd_ranges = (1, 1)"
  by (force simp: cls_digits_def list_all_iff list_ex_iff)

lemma dig_range_digit [simp]: "dig_range digit = Some (1, 1)"
  by (simp add: digit_def cls_digits_nd)

lemma dig_range_phone_body: "dig_range phone_body = Some (10, 10)"
  by (simp add: sp_def sep_def cls_digits_def nd_ranges_def)

lemma dig_range_phone: "dig_range PHONE_PATTERN = Some (10, 11)"
  by (simp add: PHONE_PATTERN_def country_code_def sp_def sep_def cls_digits_def nd_ranges_def)

text \<open>A country code always contains a character of the class \<^verbatim>\<open>[ -.]\<close>.\<close>

lemma country_code_class_char:
  assumes "matches country_code s t"
  shows "\<exists>x \<in> set s. 32 \<le> x \<and> x \<le> 46"
proof -
  from assms obtain y1 y2 y3 where
    m1: "matches (Opt (Cls [(43, 43)])) s y1" and m2: "matches (Cls [(49, 49)]) y1 y2"
    and m3: "matches (Star sp) y2 y3" and m4: "matches (Cls [(32, 46)]) y3 t"
    unfolding country_code_def by (auto elim!: matches_SeqE)
  from m4 obtain x where x: "y3 = x # t" "32 \<le> x" "x \<le> 46"
    by (auto elim!: matches_ClsE simp: in_cls_def)
  from matches_suffix [OF m1] matches_suffix [OF m2] matches_suffix [OF m3]
  obtain w where "s = w @ y3" by auto
  with x show ?thesis by auto
qed

text \<open>Without a country code the pattern consumes exactly ten digits.\<close>

lemma phone_pattern_no_country_code:
  assumes "matches PHONE_PATTERN s t"
  shows "(\<exists>x \<in> set s. 32 \<le> x \<and> x \<le> 46) \<or> ndig s = 10"
proof -
  from assms obtain y where cc: "matches (Opt country_code) s y" and b: "matches phone_body y t"
    unfolding PHONE_PATTERN_def by (auto elim: matches_SeqE)
  from cc consider (code) "matches country_code s y" | (none) "y = s"
    by (auto elim: matches_OptE)
  then show ?thesis
  proof cases
    case code
    then show ?thesis by (rule disjI1 [OF country_code_class_char])
  next
    case none
    from matches_dig_range [OF b dig_range_phone_body] obtain w where
      "y = w @ t" "ndig w = 10" by auto
    moreover have "t = [] \<or> t = [10]" using b by (rule matches_anchored) simp
    ultimately show ?thesis using none by auto
  qed
qed

section \<open>The formats the spec names are accepted\<close>

lemma rep_digit_matches:
  "length w = n \<Longrightarrow> list_all is_digit_char w \<Longrightarrow> matches (Rep n digit) (map of_char w @ t) t"
proof (induction w arbitrary: n)
  case Nil
  then show ?case by (simp add: m_rep_zero)
next
  case (Cons c w)
  then obtain m where n: "n = Suc m" and "length w = m" by (cases n) auto
  with Cons have "matches (Rep m digit) (map of_char w @ t) t" by simp
  moreover have "matches digit (of_char c # map of_char w @ t) (map of_char w @ t)"
    using Cons.prems(2) by (simp add: digit_def m_cls ascii_digit_nd)
  ultimately show ?case unfolding n by (simp add: m_rep_suc)
qed

lemma sep_matches: "p \<in> set phone_seps \<Longrightarrow> matches (Opt sep) (map of_char p @ t) t"
proof -
  assume "p \<in> set phone_seps"
  then consider "p = []" | c where "p = [c]" "c = CHR '' '' \<or> c = CHR ''.'' \<or> c = CHR ''-''"
    by (auto simp: phone_seps_def)
  then show ?thesis
  proof cases
    case 1
    then show ?thesis by (simp add: m_opt_none)
  next
    case 2
    then have "matches sep (of_char c # t) t" by (auto simp: sep_def in_cls_def intro!: m_cls)
    with 2 show ?thesis by (simp add: m_opt_some)
  qed
qed

lemma country_code_matches:
  assumes "pl = [] \<or> pl = ''+''" and "32 \<le> (of_char c :: nat)" "of_char c \<le> (46 :: nat)"
  shows "matches country_code (map of_char (pl @ [CHR ''1'', c]) @ t) t"
proof -
  have "matches (Cls [(32, 46)]) (of_char c # t) t"
    using assms(2,3) by (auto intro!: m_cls simp: in_cls_def)
  then have star: "matches (Seq (Star sp) (Cls [(32, 46)])) (of_char c # t) t"
    by (rule m_seq [OF m_star_done])
  have one: "matches (Seq (Cls [(49, 49)]) (Seq (Star sp) (Cls [(32, 46)]))) (49 # of_char c # t) t"
    by (rule m_seq [OF m_cls star]) (simp add: in_cls_def)
  have plus: "matches (Opt (Cls [(43, 43)])) (map of_char pl @ 49 # of_char c # t) (49 # of_char c # t)"
    using assms(1) m_opt_some [OF m_cls, of 43 "[(43, 43)]"]
    by (auto simp: in_cls_def m_opt_none)
  from plus one show ?thesis unfolding country_code_def by (simp add: m_seq)
qed

lemma prefix_matches: "p \<in> set phone_prefixes \<Longrightarrow> matches (Opt country_code) (map of_char p @ t) t"
proof -
  assume "p \<in> set phone_prefixes"
  then consider "p = []"
    | pl c where "p = pl @ [CHR ''1'', c]" "pl = [] \<or> pl = ''+''"
        "c = CHR '' '' \<or> c = CHR ''-'' \<or> c = CHR ''.''"
    by (auto simp: phone_prefixes_def)
  then show ?thesis
  proof cases
    case 1
    then show ?thesis by (simp add: m_opt_none)
  next
    case 2
    then have "32 \<le> (of_char c :: nat)" "of_char c \<le> (46 :: nat)" by auto
    with 2 show ?thesis using country_code_matches [of pl c t] by (simp add: m_opt_some)
  qed
qed

lemma phone_body_matches:
  assumes "length a = 3" "length b = 3" "length c = 4" "list_all is_digit_char (a @ b @ c)"
    and "s1 \<in> set phone_seps" "s2 \<in> set phone_seps" "nl = [] \<or> nl = [10]"
  shows "matches phone_body (map of_char (a @ s1 @ b @ s2 @ c) @ nl) nl"
proof -
  have "matches (Seq (Star sp) Dollar) nl nl"
    using assms(7) by (rule m_seq [OF m_star_done m_dollar])
  with rep_digit_matches [of c 4 nl] assms(3,4)
  have "matches (Seq (Rep 4 digit) (Seq (Star sp) Dollar)) (map of_char c @ nl) nl"
    by (simp add: m_seq)
  with sep_matches [OF assms(6), of "map of_char c @ nl"]
  have "matches (Seq (Opt sep) (Seq (Rep 4 digit) (Seq (Star sp) Dollar))) (map of_char (s2 @ c) @ nl) nl"
    by (simp add: m_seq)
  then have "matches (Seq (Star sp) (Seq (Opt sep) (Seq (Rep 4 digit) (Seq (Star sp) Dollar))))
      (map of_char (s2 @ c) @ nl) nl"
    by (rule m_seq [OF m_star_done])
  with rep_digit_matches [of b 3 "map of_char (s2 @ c) @ nl"] assms(2,4)
  have "matches (Seq (Rep 3 digit) (Seq (Star sp) (Seq (Opt sep) (Seq (Rep 4 digit)
      (Seq (Star sp) Dollar))))) (map of_char (b @ s2 @ c) @ nl) nl"
    by (simp add: m_seq)
  with sep_matches [OF assms(5), of "map of_char (b @ s2 @ c) @ nl"]
  have "matches (Seq (Opt sep) (Seq (Rep 3 digit) (Seq (Star sp) (Seq (Opt sep)
      (Seq (Rep 4 digit) (Seq (Star sp) Dollar)))))) (map of_char (s1 @ b @ s2 @ c) @ nl) nl"
    by (simp add: m_seq)
  then have "matches (Seq (Star sp) (Seq (Opt sep) (Seq (Rep 3 digit) (Seq (Star sp) (Seq (Opt sep)
      (Seq (Rep 4 digit) (Seq (Star sp) Dollar))))))) (map of_char (s1 @ b @ s2 @ c) @ nl) nl"
    by (rule m_seq [OF m_star_done])
  with rep_digit_matches [of a 3 "map of_char (s1 @ b @ s2 @ c) @ nl"] assms(1,4)
  show ?thesis by (simp add: m_seq)
qed

lemma phone_prefixes_ascii: "p \<in> set phone_prefixes \<Longrightarrow> is_ascii p"
  by (auto simp: phone_prefixes_def)

lemma phone_seps_ascii: "p \<in> set phone_seps \<Longrightarrow> is_ascii p"
  by (auto simp: phone_seps_def)

section \<open>Properties\<close>

text \<open>
  C19: every string the phone validator accepts contains exactly ten Unicode decimal digits,
  or eleven when it starts with the country code \<^verbatim>\<open>1\<close>; the digits need not be ASCII,
  because \<^verbatim>\<open>\d\<close> matches every character of category Nd.
\<close>

theorem phone_pattern_digits:
  "re_match PHONE_PATTERN s \<Longrightarrow> ndig (utf8_decode s) = 10 \<or> ndig (utf8_decode s) = 11"
proof -
  assume "re_match PHONE_PATTERN s"
  then obtain t where m: "matches PHONE_PATTERN (utf8_decode s) t" by (auto simp: re_match_iff)
  with dig_range_phone obtain w where w: "utf8_decode s = w @ t" "10 \<le> ndig w" "ndig w \<le> 11"
    using matches_dig_range by blast
  have "anchored PHONE_PATTERN" by (simp add: PHONE_PATTERN_def)
  with m have "t = [] \<or> t = [10]" by (rule matches_anchored)
  with w show ?thesis by auto
qed

text \<open>
  C18: the validator accepts every number in the format the spec describes: an optional
  country code written \<^verbatim>\<open>1\<close> or \<^verbatim>\<open>+1\<close> followed by a space, dot or hyphen, then
  groups of three, three and four digits separated by nothing, a space, a dot or a hyphen.
\<close>

theorem phone_pattern_accepts:
  assumes "length a = 3" "length b = 3" "length c = 4" "list_all is_digit_char (a @ b @ c)"
    and "p \<in> set phone_prefixes" "s1 \<in> set phone_seps" "s2 \<in> set phone_seps"
  shows "re_match PHONE_PATTERN (p @ a @ s1 @ b @ s2 @ c)"
proof -
  have "is_ascii (p @ a @ s1 @ b @ s2 @ c)"
    using assms(4-7) digits_ascii [OF assms(4)] phone_prefixes_ascii phone_seps_ascii by simp
  then have d: "utf8_decode (p @ a @ s1 @ b @ s2 @ c) = map of_char p @ map of_char (a @ s1 @ b @ s2 @ c) @ []"
    by (simp add: utf8_decode_ascii)
  have "matches phone_body (map of_char (a @ s1 @ b @ s2 @ c) @ []) []"
    using phone_body_matches [OF assms(1-4,6,7)] by blast
  with prefix_matches [OF assms(5)] have "matches PHONE_PATTERN (utf8_decode (p @ a @ s1 @ b @ s2 @ c)) []"
    unfolding PHONE_PATTERN_def d by (rule m_seq)
  then show ?thesis by (auto simp: re_match_iff)
qed

text \<open>
  C27: where the pattern departs from the spec, for every three-three-four grouping of ASCII
  digits: the country code \<^verbatim>\<open>1\<close> written without a separator is rejected
  (\<^verbatim>\<open>15551234567\<close>); since \<^verbatim>\<open>[ -.]\<close> is a range from space to dot, every
  character from U+0020 to U+002E after \<^verbatim>\<open>+1\<close> is accepted as the separator
  (\<^verbatim>\<open>+1#5551234567\<close>); a trailing newline is accepted, because Python's \<^verbatim>\<open>$\<close>
  also matches before a final newline.
\<close>

theorem phone_pattern_divergence:
  assumes "length a = 3" "length b = 3" "length c = 4" "list_all is_digit_char (a @ b @ c)"
    and "32 \<le> (of_char ch :: nat)" "of_char ch \<le> (46 :: nat)"
  shows "\<not> re_match PHONE_PATTERN (CHR ''1'' # a @ b @ c) \<and>
         re_match PHONE_PATTERN (''+1'' @ ch # a @ b @ c) \<and>
         re_match PHONE_PATTERN (a @ b @ c @ [CHR 10])"
proof (intro conjI)
  let ?w = "CHR ''1'' # a @ b @ c"
  have dw: "list_all is_digit_char ?w" using assms(4) by (simp add: is_digit_char_def)
  then have u: "utf8_decode ?w = map of_char ?w" by (simp add: utf8_decode_ascii digits_ascii)
  have "ndig (map of_char ?w) = 11" using assms(1-3) ndig_ascii_digits [OF dw] by simp
  moreover have "\<not> (\<exists>x \<in> set (map of_char ?w). 32 \<le> x \<and> x \<le> (46 :: nat))"
  proof
    assume "\<exists>x \<in> set (map of_char ?w). 32 \<le> x \<and> x \<le> (46 :: nat)"
    then obtain d where d: "d \<in> set ?w" "of_char d \<le> (46 :: nat)" by auto
    from dw d(1) have "is_digit_char d" by (simp only: list_all_iff)
    with d(2) show False by (simp add: is_digit_char_def)
  qed
  ultimately show "\<not> re_match PHONE_PATTERN ?w"
    using phone_pattern_no_country_code by (force simp: re_match_iff u)
next
  have "is_ascii (''+1'' @ ch # a @ b @ c)"
    using assms(5,6) digits_ascii [OF assms(4)] by simp
  then have d: "utf8_decode (''+1'' @ ch # a @ b @ c) =
      map of_char (''+'' @ [CHR ''1'', ch]) @ map of_char (a @ [] @ b @ [] @ c) @ []"
    by (simp add: utf8_decode_ascii)
  have "matches (Opt country_code) (map of_char (''+'' @ [CHR ''1'', ch]) @ map of_char (a @ [] @ b @ [] @ c) @ [])
      (map of_char (a @ [] @ b @ [] @ c) @ [])"
    using country_code_matches [of "''+''" ch] assms(5,6) by (simp add: m_opt_some)
  moreover have "matches phone_body (map of_char (a @ [] @ b @ [] @ c) @ []) []"
    by (rule phone_body_matches [OF assms(1-4)]) (simp_all add: phone_seps_def)
  ultimately show "re_match PHONE_PATTERN (''+1'' @ ch # a @ b @ c)"
    unfolding re_match_iff d PHONE_PATTERN_def by (blast intro: m_seq)
next
  have "is_ascii (a @ b @ c @ [CHR 10])" using digits_ascii [OF assms(4)] by simp
  then have d: "utf8_decode (a @ b @ c @ [CHR 10]) = map of_char (a @ [] @ b @ [] @ c) @ [10]"
    by (simp add: utf8_decode_ascii)
  have "matches phone_body (map of_char (a @ [] @ b @ [] @ c) @ [10]) [10]"
    by (rule phone_body_matches [OF assms(1-4)]) (simp_all add: phone_seps_def)
  then show "re_match PHONE_PATTERN (a @ b @ c @ [CHR 10])"
    unfolding re_match_iff d PHONE_PATTERN_def by (blast intro: m_seq m_opt_none)
qed

section \<open>Witnesses\<close>

theorem phone_pattern_digits_witness:
  "re_match PHONE_PATTERN phone_arabic_indic \<and> \<not> list_ex is_digit_char phone_arabic_indic \<and>
   (ndig (utf8_decode phone_arabic_indic) = 10 \<or> ndig (utf8_decode phone_arabic_indic) = 11)"
proof -
  have h: "re_match PHONE_PATTERN phone_arabic_indic"
    by (simp add: pat_defs phone_arabic_indic_def utf8_eval)
  have "\<not> list_ex is_digit_char phone_arabic_indic"
    by (simp add: phone_arabic_indic_def is_digit_char_def)
  with h show ?thesis using phone_pattern_digits [OF h] by blast
qed

theorem phone_pattern_accepts_witness:
  "re_match PHONE_PATTERN (''1-'' @ ''555'' @ ''-'' @ ''123'' @ ''.'' @ ''4567'')"
  by (rule phone_pattern_accepts)
    (simp_all add: phone_prefixes_def phone_seps_def is_digit_char_def)

theorem phone_pattern_divergence_witness:
  "\<not> re_match PHONE_PATTERN (CHR ''1'' # ''555'' @ ''123'' @ ''4567'') \<and>
   re_match PHONE_PATTERN (''+1'' @ CHR ''#'' # ''555'' @ ''123'' @ ''4567'') \<and>
   re_match PHONE_PATTERN (''555'' @ ''123'' @ ''4567'' @ [CHR 10])"
  by (rule phone_pattern_divergence) (simp_all add: is_digit_char_def)

end
