(* ===== verification/PyFloat.thy ===== *)
theory PyFloat
  imports Prelude
begin

text \<open>
  Python's \<^verbatim>\<open>float\<close> as far as \<^verbatim>\<open>src/lambda/Place-Order.py\<close> computes with it: the
  prices of a cart are IEEE 754 binary64 numbers, summed with \<^verbatim>\<open>sum\<close>, subtracted, taken
  absolute and compared with the literal \<^verbatim>\<open>0.01\<close> (lines 48--57 and 65--73), and printed with
  \<^verbatim>\<open>.2f\<close> in the emails. A finite double is \<open>PyFloat m e\<close>, the exact value
  \<open>m * 2^e\<close>; every arithmetic result is rounded to 53 significant bits, ties to even, with
  the exponent floor of the subnormal numbers, as IEEE 754 prescribes for a correctly rounded
  operation. Comparisons are exact. Infinities and NaN are not modelled: a price is a finite
  JSON number, and sums of prices stay far below the largest double.
\<close>

datatype pyfloat = PyFloat int int

definition fval :: "pyfloat \<Rightarrow> real" where
  "fval x = (case x of PyFloat m e \<Rightarrow> of_int m * (if 0 \<le> e then 2 ^ nat e else 1 / 2 ^ nat (- e)))"

text \<open>The number of binary digits of a natural number.\<close>

fun nbits :: "nat \<Rightarrow> nat" where
  "nbits n = (if n = 0 then 0 else Suc (nbits (n div 2)))"

text \<open>\<open>m / 2^k\<close> rounded to the nearest integer, ties to the even one.\<close>

definition round_shift :: "int \<Rightarrow> nat \<Rightarrow> int" where
  "round_shift m k =
     (let q = m div 2 ^ k; r = m mod 2 ^ k
      in if 2 * r < 2 ^ k then q else if 2 ^ k < 2 * r then q + 1 else if even q then q else q + 1)"

text \<open>The double nearest to \<open>m * 2^e\<close>: 53 bits of mantissa, last bit no lower than \<open>2^-1074\<close>.\<close>

definition fl_round :: "int \<Rightarrow> int \<Rightarrow> pyfloat" where
  "fl_round m e =
     (let k = max (int (nbits (nat \<bar>m\<bar>)) - 53) (-1074 - e)
      in if k \<le> 0 then PyFloat m e else PyFloat (round_shift m (nat k)) (e + k))"

text \<open>\<^verbatim>\<open>x + y\<close>: the exact sum on a common exponent, rounded once.\<close>

definition fadd :: "pyfloat \<Rightarrow> pyfloat \<Rightarrow> pyfloat" where
  "fadd x y =
     (case (x, y) of (PyFloat m1 e1, PyFloat m2 e2) \<Rightarrow>
        let e = min e1 e2 in fl_round (m1 * 2 ^ nat (e1 - e) + m2 * 2 ^ nat (e2 - e)) e)"

definition fneg :: "pyfloat \<Rightarrow> pyfloat" where
  "fneg x = (case x of PyFloat m e \<Rightarrow> PyFloat (- m) e)"

definition fsub :: "pyfloat \<Rightarrow> pyfloat \<Rightarrow> pyfloat" where
  "fsub x y = fadd x (fneg y)"

definition fabs :: "pyfloat \<Rightarrow> pyfloat" where
  "fabs x = (case x of PyFloat m e \<Rightarrow> PyFloat \<bar>m\<bar> e)"

text \<open>\<^verbatim>\<open>x < y\<close> and \<^verbatim>\<open>x <= y\<close>, exact, on a common exponent.\<close>

definition fless :: "pyfloat \<Rightarrow> pyfloat \<Rightarrow> bool" where
  "fless x y =
     (case (x, y) of (PyFloat m1 e1, PyFloat m2 e2) \<Rightarrow>
        let e = min e1 e2 in m1 * 2 ^ nat (e1 - e) < m2 * 2 ^ nat (e2 - e))"

definition fle :: "pyfloat \<Rightarrow> pyfloat \<Rightarrow> bool" where
  "fle x y =
     (case (x, y) of (PyFloat m1 e1, PyFloat m2 e2) \<Rightarrow>
        let e = min e1 e2 in m1 * 2 ^ nat (e1 - e) \<le> m2 * 2 ^ nat (e2 - e))"

definition fzero :: pyfloat where
  "fzero = PyFloat 0 0"

text \<open>\<^verbatim>\<open>sum(xs)\<close>: starts from the integer \<open>0\<close> and adds left to right.\<close>

definition py_sum :: "pyfloat list \<Rightarrow> pyfloat" where
  "py_sum xs = foldl fadd fzero xs"

text \<open>The literal \<^verbatim>\<open>0.01\<close>: the double nearest to one hundredth,
  \<open>5764607523034235 * 2^-59\<close>, slightly above \<open>1/100\<close>.\<close>

definition fl_0_01 :: pyfloat where
  "fl_0_01 = PyFloat 5764607523034235 (-59)"

section \<open>Lemmas\<close>

declare nbits.simps [simp del]

lemma nbits_0 [simp]: "nbits 0 = 0"
  by (simp add: nbits.simps)

lemma nbits_pos [simp]: "0 < n \<Longrightarrow> nbits n = Suc (nbits (n div 2))"
  by (subst nbits.simps) simp

lemma fval_powr: "fval (PyFloat m e) = of_int m * 2 powr of_int e"
proof (cases "0 \<le> e")
  case True
  then have "(2::real) powr of_int e = 2 ^ nat e"
    by (metis of_int_of_nat_eq nat_0_le powr_realpow zero_less_numeral)
  with True show ?thesis by (simp add: fval_def)
next
  case False
  then have "(2::real) powr of_int e = 1 / 2 ^ nat (- e)"
    by (simp add: powr_minus_divide [symmetric] powr_realpow [symmetric])
  with False show ?thesis by (simp add: fval_def)
qed

lemma aligned_value:
  "e \<le> e1 \<Longrightarrow> of_int (m * 2 ^ nat (e1 - e)) * (2::real) powr of_int e = of_int m * 2 powr of_int e1"
  by (simp add: powr_realpow [symmetric] powr_add [symmetric])

lemma fless_iff: "fless x y \<longleftrightarrow> fval x < fval y"
proof (cases x; cases y)
  fix m1 e1 m2 e2 assume xy: "x = PyFloat m1 e1" "y = PyFloat m2 e2"
  let ?e = "min e1 e2"
  have "(m1 * 2 ^ nat (e1 - ?e) < m2 * 2 ^ nat (e2 - ?e)) \<longleftrightarrow>
      of_int (m1 * 2 ^ nat (e1 - ?e)) * (2::real) powr of_int ?e < of_int (m2 * 2 ^ nat (e2 - ?e)) * 2 powr of_int ?e"
    using powr_gt_zero [of 2 "of_int ?e"] by (simp only: mult_less_cancel_right_pos of_int_less_iff simp_thms)
  then show ?thesis
    using xy by (simp only: fless_def fval_powr prod.case pyfloat.case Let_def aligned_value min.cobounded1 min.cobounded2)
qed

lemma fle_iff: "fle x y \<longleftrightarrow> fval x \<le> fval y"
proof (cases x; cases y)
  fix m1 e1 m2 e2 assume xy: "x = PyFloat m1 e1" "y = PyFloat m2 e2"
  let ?e = "min e1 e2"
  have "(m1 * 2 ^ nat (e1 - ?e) \<le> m2 * 2 ^ nat (e2 - ?e)) \<longleftrightarrow>
      of_int (m1 * 2 ^ nat (e1 - ?e)) * (2::real) powr of_int ?e \<le> of_int (m2 * 2 ^ nat (e2 - ?e)) * 2 powr of_int ?e"
    using powr_gt_zero [of 2 "of_int ?e"] by (simp only: mult_le_cancel_right_pos of_int_le_iff simp_thms)
  then show ?thesis
    using xy by (simp only: fle_def fval_powr prod.case pyfloat.case Let_def aligned_value min.cobounded1 min.cobounded2)
qed

lemmas pyfloat_eval = py_sum_def fadd_def fsub_def fneg_def fabs_def fless_def fle_def fl_round_def
  fzero_def fl_0_01_def round_shift_def

lemma fle_fzero: "fle fzero x \<longleftrightarrow> 0 \<le> fval x"
  by (simp add: fle_iff fzero_def fval_def)

end
