(* ===== verification/Schema.thy ===== *)
theory Schema
  imports Regex PyFloat
begin

text \<open>
  The request models of \<^verbatim>\<open>src/lambda/Place-Order.py\<close> (lines 45--98): \<^verbatim>\<open>CartItem\<close>,
  \<^verbatim>\<open>Cart\<close> with its three validators and \<^verbatim>\<open>OrderRequest\<close> with the phone validator,
  validated as pydantic (version 1, the \<^verbatim>\<open>@validator\<close> API the code uses) validates them.
  The models are records of the values after type coercion. For each field, its \<^verbatim>\<open>Field\<close>
  constraint runs first and then its validators in the order they are declared; the first
  failure ends that field. Errors of all fields are collected, in field order, and a
  validator with a \<^verbatim>\<open>values\<close> argument sees only the fields before it that passed.
  \<^verbatim>\<open>EmailStr\<close> is the email library, a parameter that returns the normalised address or
  \<open>None\<close>. A failed validation is the list of errors FastAPI returns, each a location and a
  message. Prices are \<^verbatim>\<open>float\<close> in the code and \<^typ>\<open>pyfloat\<close> here (theory
  \<open>PyFloat\<close>): the price check sums, subtracts and compares as binary64 does.
\<close>

section \<open>Models\<close>

record cart_item =
  qty :: int
  price :: pyfloat
  pricePerUnit :: pyfloat
  imageUrl :: string

record cart =
  items :: "(string \<times> cart_item) list"
  totalQty :: int
  totalPrice :: pyfloat

record order_request =
  phone :: string
  email :: string
  verification :: string
  shipping :: string
  order :: cart
  cf_token :: string

datatype verr = VErr (err_loc: "string list") (err_msg: string)

section \<open>Constraints and validators\<close>

definition msg_gt0 :: string where
  "msg_gt0 = ''ensure this value is greater than 0''"

definition msg_ge0 :: string where
  "msg_ge0 = ''ensure this value is greater than or equal to 0''"

definition msg_min_order :: string where
  "msg_min_order = ''Our minimum order size for delivery is 3 items.''"

definition msg_price_mismatch :: string where
  "msg_price_mismatch = ''Total price does not match sum of item prices''"

definition msg_qty_mismatch :: string where
  "msg_qty_mismatch = ''Total quantity does not match sum of item quantities''"

definition msg_phone :: string where
  "msg_phone = ''Please enter a valid phone number.''"

definition msg_email :: string where
  "msg_email = ''value is not a valid email address''"

text \<open>The \<^verbatim>\<open>Field(gt=0)\<close> and \<^verbatim>\<open>Field(ge=0)\<close> constraints.\<close>

definition con_gt0_int :: "int \<Rightarrow> string + int" where
  "con_gt0_int v = (if 0 < v then Inr v else Inl msg_gt0)"

definition con_ge0_int :: "int \<Rightarrow> string + int" where
  "con_ge0_int v = (if 0 \<le> v then Inr v else Inl msg_ge0)"

definition con_ge0_float :: "pyfloat \<Rightarrow> string + pyfloat" where
  "con_ge0_float v = (if fle fzero v then Inr v else Inl msg_ge0)"

text \<open>\<open>None\<close> for \<^verbatim>\<open>'items' not in values\<close>.\<close>

definition validate_min_quantity :: "int \<Rightarrow> string + int" where
  "validate_min_quantity v = (if v < 3 then Inl msg_min_order else Inr v)"

definition validate_total_price :: "(string \<times> cart_item) list option \<Rightarrow> pyfloat \<Rightarrow> string + pyfloat" where
  "validate_total_price values_items v =
     (case values_items of
        None \<Rightarrow> Inr v
      | Some its \<Rightarrow>
          (let calculated_total = py_sum (map (price \<circ> snd) its)
           in if fless fl_0_01 (fabs (fsub calculated_total v)) then Inl msg_price_mismatch else Inr v))"

definition validate_total_qty :: "(string \<times> cart_item) list option \<Rightarrow> int \<Rightarrow> string + int" where
  "validate_total_qty values_items v =
     (case values_items of
        None \<Rightarrow> Inr v
      | Some its \<Rightarrow>
          (let calculated_qty = sum_list (map (qty \<circ> snd) its)
           in if calculated_qty \<noteq> v then Inl msg_qty_mismatch else Inr v))"

definition validate_phone_format :: "string \<Rightarrow> string + string" where
  "validate_phone_format v = (if \<not> re_match PHONE_PATTERN v then Inl msg_phone else Inr v)"

section \<open>Pydantic's validation of a model\<close>

text \<open>One field: its constraint and validators in order, stopping at the first error.\<close>

fun run_validators :: "('a \<Rightarrow> string + 'a) list \<Rightarrow> 'a \<Rightarrow> string + 'a" where
  "run_validators [] v = Inr v"
| "run_validators (f # fs) v = (case f v of Inl m \<Rightarrow> Inl m | Inr v' \<Rightarrow> run_validators fs v')"

definition field :: "string list \<Rightarrow> ('a \<Rightarrow> string + 'a) list \<Rightarrow> 'a \<Rightarrow> verr list + 'a" where
  "field loc vs v = (case run_validators vs v of Inl m \<Rightarrow> Inl [VErr loc m] | Inr v' \<Rightarrow> Inr v')"

fun errs_of :: "verr list + 'a \<Rightarrow> verr list" where
  "errs_of (Inl es) = es"
| "errs_of (Inr _) = []"

definition validate_cart_item :: "string list \<Rightarrow> cart_item \<Rightarrow> verr list + cart_item" where
  "validate_cart_item loc it =
     (let errs = errs_of (field (loc @ [''qty'']) [con_gt0_int] (qty it))
               @ errs_of (field (loc @ [''price'']) [con_ge0_float] (price it))
               @ errs_of (field (loc @ [''pricePerUnit'']) [con_ge0_float] (pricePerUnit it))
      in if errs = [] then Inr it else Inl errs)"

text \<open>\<^verbatim>\<open>Dict[str, CartItem]\<close>: every entry is validated, errors located at its key.\<close>

definition validate_items :: "string list \<Rightarrow> (string \<times> cart_item) list \<Rightarrow> verr list" where
  "validate_items loc its =
     concat (map (\<lambda>(k, it). errs_of (validate_cart_item (loc @ [k]) it)) its)"

definition validate_cart :: "string list \<Rightarrow> cart \<Rightarrow> verr list + cart" where
  "validate_cart loc c =
     (let e_items = validate_items (loc @ [''items'']) (items c);
          values_items = (if e_items = [] then Some (items c) else None);
          e_qty = errs_of (field (loc @ [''totalQty''])
                    [con_ge0_int, validate_min_quantity, validate_total_qty values_items] (totalQty c));
          e_price = errs_of (field (loc @ [''totalPrice''])
                    [con_ge0_float, validate_total_price values_items] (totalPrice c));
          errs = e_items @ e_qty @ e_price
      in if errs = [] then Inr c else Inl errs)"

definition validate_email :: "(string \<Rightarrow> string option) \<Rightarrow> string list \<Rightarrow> string \<Rightarrow> verr list + string" where
  "validate_email email_lib loc v =
     (case email_lib v of None \<Rightarrow> Inl [VErr loc msg_email] | Some e \<Rightarrow> Inr e)"

text \<open>The body of \<^verbatim>\<open>POST /order\<close>, located under \<^verbatim>\<open>body\<close> as FastAPI reports it.\<close>

definition validate_order_request ::
  "(string \<Rightarrow> string option) \<Rightarrow> order_request \<Rightarrow> verr list + order_request" where
  "validate_order_request email_lib r =
     (let ph = field [''body'', ''phone''] [validate_phone_format] (phone r);
          em = validate_email email_lib [''body'', ''email''] (email r);
          oc = validate_cart [''body'', ''order''] (order r)
      in case (ph, em, oc) of
           (Inr p, Inr e, Inr c) \<Rightarrow> Inr (r\<lparr>phone := p, email := e, order := c\<rparr>)
         | _ \<Rightarrow> Inl (errs_of ph @ errs_of em @ errs_of oc))"

section \<open>The invariant of a validated cart\<close>

definition item_valid :: "cart_item \<Rightarrow> bool" where
  "item_valid it = (0 < qty it \<and> fle fzero (price it) \<and> fle fzero (pricePerUnit it))"

definition sum_qty :: "(string \<times> cart_item) list \<Rightarrow> int" where
  "sum_qty its = sum_list (map (qty \<circ> snd) its)"

definition sum_price :: "(string \<times> cart_item) list \<Rightarrow> pyfloat" where
  "sum_price its = py_sum (map (price \<circ> snd) its)"

text \<open>What the spec's data model requires of a cart (section 3), with the price tolerance
  computed in floating point as the code computes it.\<close>

definition cart_inv :: "cart \<Rightarrow> bool" where
  "cart_inv c =
     (list_all (item_valid \<circ> snd) (items c) \<and>
      totalQty c = sum_qty (items c) \<and>
      \<not> fless fl_0_01 (fabs (fsub (sum_price (items c)) (totalPrice c))) \<and>
      3 \<le> totalQty c \<and> fle fzero (totalPrice c))"

lemmas validator_defs = con_gt0_int_def con_ge0_int_def con_ge0_float_def
  validate_min_quantity_def validate_total_price_def validate_total_qty_def field_def

section \<open>Lemmas\<close>

lemma validate_cart_item_ok: "validate_cart_item loc it = Inr it' \<longleftrightarrow> it' = it \<and> item_valid it"
  by (auto simp: validate_cart_item_def item_valid_def validator_defs Let_def split: if_splits)

lemma errs_of_validate_cart_item:
  "errs_of (validate_cart_item loc it) = [] \<longleftrightarrow> item_valid it"
  by (cases "validate_cart_item loc it")
    (auto simp: validate_cart_item_def item_valid_def validator_defs Let_def split: if_splits)

lemma validate_items_Nil: "validate_items loc its = [] \<longleftrightarrow> list_all (item_valid \<circ> snd) its"
  by (induction its) (auto simp: validate_items_def errs_of_validate_cart_item)

lemma qty_field_errs:
  "errs_of (field loc [con_ge0_int, validate_min_quantity, validate_total_qty vi] q) =
     (if q < 0 then [VErr loc msg_ge0]
      else if q < 3 then [VErr loc msg_min_order]
      else case vi of None \<Rightarrow> []
        | Some its \<Rightarrow> if sum_qty its \<noteq> q then [VErr loc msg_qty_mismatch] else [])"
  by (simp add: validator_defs sum_qty_def split: option.splits)

lemma price_field_errs:
  "errs_of (field loc [con_ge0_float, validate_total_price vi] p) =
     (if \<not> fle fzero p then [VErr loc msg_ge0]
      else case vi of None \<Rightarrow> []
        | Some its \<Rightarrow> if fless fl_0_01 (fabs (fsub (sum_price its) p)) then [VErr loc msg_price_mismatch] else [])"
  by (simp add: validator_defs sum_price_def split: option.splits)

lemma validate_cart_eq:
  "validate_cart loc c =
     (let e_items = validate_items (loc @ [''items'']) (items c);
          vi = (if e_items = [] then Some (items c) else None);
          q = totalQty c; p = totalPrice c;
          e_qty = (if q < 0 then [VErr (loc @ [''totalQty'']) msg_ge0]
                   else if q < 3 then [VErr (loc @ [''totalQty'']) msg_min_order]
                   else case vi of None \<Rightarrow> []
                     | Some its \<Rightarrow> if sum_qty its \<noteq> q then [VErr (loc @ [''totalQty'']) msg_qty_mismatch] else []);
          e_price = (if \<not> fle fzero p then [VErr (loc @ [''totalPrice'']) msg_ge0]
                   else case vi of None \<Rightarrow> []
                     | Some its \<Rightarrow> if fless fl_0_01 (fabs (fsub (sum_price its) p)) then [VErr (loc @ [''totalPrice'']) msg_price_mismatch] else []);
          errs = e_items @ e_qty @ e_price
      in if errs = [] then Inr c else Inl errs)"
  unfolding validate_cart_def Let_def qty_field_errs price_field_errs ..

lemma validate_items_msgs:
  "e \<in> set (validate_items loc its) \<Longrightarrow> err_msg e = msg_gt0 \<or> err_msg e = msg_ge0"
  by (auto simp: validate_items_def validate_cart_item_def validator_defs Let_def split: if_splits)

text \<open>
  C15: a cart whose items are all valid and whose declared total quantity is at least 3 but
  differs from the sum of the item quantities is rejected with the quantity-mismatch error.
\<close>

theorem qty_mismatch_rejected:
  assumes "list_all (item_valid \<circ> snd) (items c)" "3 \<le> totalQty c" "sum_qty (items c) \<noteq> totalQty c"
  shows "\<exists>errs. validate_cart loc c = Inl errs \<and> VErr (loc @ [''totalQty'']) msg_qty_mismatch \<in> set errs"
  using assms by (simp add: validate_cart_eq validate_items_Nil Let_def)

text \<open>
  C16: a cart whose items are all valid and whose declared total price is non-negative is
  rejected with the price-mismatch error when the float \<^verbatim>\<open>abs(sum(prices) - total)\<close>,
  computed in binary64 as the code computes it, exceeds the double \<^verbatim>\<open>0.01\<close>.
\<close>

theorem price_mismatch_rejected:
  assumes "list_all (item_valid \<circ> snd) (items c)" "fle fzero (totalPrice c)"
    "fless fl_0_01 (fabs (fsub (sum_price (items c)) (totalPrice c)))"
  shows "\<exists>errs. validate_cart loc c = Inl errs \<and> VErr (loc @ [''totalPrice'']) msg_price_mismatch \<in> set errs"
  using assms by (simp add: validate_cart_eq validate_items_Nil Let_def)

text \<open>
  C17: a cart whose declared total quantity is 0, 1 or 2 is rejected with the minimum-order
  error, whatever its items are.
\<close>

theorem min_order_rejected:
  assumes "0 \<le> totalQty c" "totalQty c < 3"
  shows "\<exists>errs. validate_cart loc c = Inl errs \<and> VErr (loc @ [''totalQty'']) msg_min_order \<in> set errs"
  using assms by (simp add: validate_cart_eq Let_def)

text \<open>
  C25: a cart with a negative declared total quantity is rejected with pydantic's
  \<^verbatim>\<open>ge=0\<close> error on \<^verbatim>\<open>totalQty\<close> and never with the minimum-order error, because
  the field constraint fails before the validators run.
\<close>

theorem negative_total_qty_rejected:
  assumes "totalQty c < 0"
  shows "\<exists>errs. validate_cart loc c = Inl errs \<and> VErr (loc @ [''totalQty'']) msg_ge0 \<in> set errs \<and>
           (\<forall>e \<in> set errs. err_msg e \<noteq> msg_min_order)"
proof -
  have "\<forall>e \<in> set (validate_items (loc @ [''items'']) (items c)). err_msg e \<noteq> msg_min_order"
    using validate_items_msgs by (fastforce simp: msg_gt0_def msg_ge0_def msg_min_order_def)
  then show ?thesis
    using assms by (auto simp: validate_cart_eq Let_def msg_ge0_def msg_min_order_def msg_price_mismatch_def split: option.splits)
qed

text \<open>
  C7: cart validation accepts a cart exactly when it satisfies the invariants of the spec's
  data model (valid items, quantity and price sums, minimum size), and then returns it
  unchanged.
\<close>

theorem validate_cart_iff: "validate_cart loc c = Inr c' \<longleftrightarrow> c' = c \<and> cart_inv c"
  by (auto simp: validate_cart_eq validate_items_Nil cart_inv_def Let_def split: if_splits)


lemma validate_cart_inv: "cart_inv c \<Longrightarrow> validate_cart loc c = Inr c"
  by (auto simp: validate_cart_eq validate_items_Nil cart_inv_def Let_def)

text \<open>
  C6: request validation accepts a body exactly when the phone matches the pattern, the
  email library accepts the address and the cart satisfies its invariants; the validated
  request carries the normalised address.
\<close>

theorem validate_order_request_iff:
  "validate_order_request email_lib r = Inr r' \<longleftrightarrow>
     re_match PHONE_PATTERN (phone r) \<and> cart_inv (order r) \<and>
     (\<exists>e. email_lib (email r) = Some e \<and> r' = r\<lparr>email := e\<rparr>)"
  by (auto simp: validate_order_request_def validate_phone_format_def validate_email_def field_def
      validate_cart_iff validate_cart_inv Let_def split: sum.splits option.splits if_splits)

text \<open>
  C24: the minimum-order validator runs before the quantity check on \<^verbatim>\<open>totalQty\<close>, so
  a cart of valid items declaring 0, 1 or 2 items whose quantities sum to something else
  reports the minimum-order error and never the quantity mismatch the spec says is always
  reported.
\<close>

theorem qty_mismatch_masked:
  assumes "list_all (item_valid \<circ> snd) (items c)" "0 \<le> totalQty c" "totalQty c < 3"
    "sum_qty (items c) \<noteq> totalQty c"
  shows "\<exists>errs. validate_cart loc c = Inl errs \<and> VErr (loc @ [''totalQty'']) msg_min_order \<in> set errs \<and>
           VErr (loc @ [''totalQty'']) msg_qty_mismatch \<notin> set errs"
proof -
  have "validate_items (loc @ [''items'']) (items c) = []"
    using assms(1) validate_items_Nil by blast
  then show ?thesis
    using assms(2,3) by (simp add: validate_cart_eq Let_def msg_qty_mismatch_def msg_min_order_def
        msg_ge0_def msg_price_mismatch_def)
qed

text \<open>
  C26: validation does not stop at the first violated constraint: a body whose phone does not
  match the pattern and whose address the email library refuses reports the phone error, then
  the email error, then every error of the cart, in field order.
\<close>

theorem validation_accumulates_errors:
  assumes "\<not> re_match PHONE_PATTERN (phone r)" "email_lib (email r) = None"
  shows "validate_order_request email_lib r =
     Inl ([VErr [''body'', ''phone''] msg_phone, VErr [''body'', ''email''] msg_email] @
          errs_of (validate_cart [''body'', ''order''] (order r)))"
  using assms by (simp add: validate_order_request_def validate_phone_format_def validate_email_def
      field_def Let_def split: sum.splits)

section \<open>Witnesses\<close>

theorem qty_mismatch_rejected_witness:
  "\<exists>errs. validate_cart [''order'']
     \<lparr>items = [(''Apples'', \<lparr>qty = 2, price = PyFloat 6 0, pricePerUnit = PyFloat 3 0, imageUrl = ''a.png''\<rparr>),
               (''Pears'', \<lparr>qty = 1, price = PyFloat 4 0, pricePerUnit = PyFloat 4 0, imageUrl = ''p.png''\<rparr>)],
      totalQty = 4, totalPrice = PyFloat 10 0\<rparr> = Inl errs \<and>
     VErr [''order'', ''totalQty''] msg_qty_mismatch \<in> set errs"
proof -
  let ?c = "\<lparr>items = [(''Apples'', \<lparr>qty = 2, price = PyFloat 6 0, pricePerUnit = PyFloat 3 0, imageUrl = ''a.png''\<rparr>),
               (''Pears'', \<lparr>qty = 1, price = PyFloat 4 0, pricePerUnit = PyFloat 4 0, imageUrl = ''p.png''\<rparr>)],
      totalQty = 4, totalPrice = PyFloat 10 0\<rparr> :: cart"
  have h1: "list_all (item_valid \<circ> snd) (items ?c)" by (simp add: item_valid_def pyfloat_eval)
  have h2: "3 \<le> totalQty ?c" by simp
  have h3: "sum_qty (items ?c) \<noteq> totalQty ?c" by (simp add: sum_qty_def)
  show ?thesis using qty_mismatch_rejected [OF h1 h2 h3, of "[''order'']"] by simp
qed

text \<open>The cart of the spec's example with a declared total of 20.01: in binary64,
  \<^verbatim>\<open>abs(20 - 20.01)\<close> is 0.010000000000001563, above the double \<^verbatim>\<open>0.01\<close>,
  so the code rejects a cart one cent off.\<close>

theorem price_mismatch_rejected_witness:
  "\<exists>errs. validate_cart [''order'']
     \<lparr>items = [(''Basil'', \<lparr>qty = 1, price = PyFloat 10 0, pricePerUnit = PyFloat 10 0, imageUrl = ''b.png''\<rparr>),
               (''Mint'', \<lparr>qty = 1, price = PyFloat 5 0, pricePerUnit = PyFloat 5 0, imageUrl = ''m.png''\<rparr>),
               (''Sage'', \<lparr>qty = 1, price = PyFloat 5 0, pricePerUnit = PyFloat 5 0, imageUrl = ''s.png''\<rparr>)],
      totalQty = 3, totalPrice = PyFloat 5632314283980227 (-48)\<rparr> = Inl errs \<and>
     VErr [''order'', ''totalPrice''] msg_price_mismatch \<in> set errs"
proof -
  let ?c = "\<lparr>items = [(''Basil'', \<lparr>qty = 1, price = PyFloat 10 0, pricePerUnit = PyFloat 10 0, imageUrl = ''b.png''\<rparr>),
               (''Mint'', \<lparr>qty = 1, price = PyFloat 5 0, pricePerUnit = PyFloat 5 0, imageUrl = ''m.png''\<rparr>),
               (''Sage'', \<lparr>qty = 1, price = PyFloat 5 0, pricePerUnit = PyFloat 5 0, imageUrl = ''s.png''\<rparr>)],
      totalQty = 3, totalPrice = PyFloat 5632314283980227 (-48)\<rparr> :: cart"
  have h1: "list_all (item_valid \<circ> snd) (items ?c)" by (simp add: item_valid_def pyfloat_eval)
  have h2: "fle fzero (totalPrice ?c)" by (simp add: pyfloat_eval)
  have h3: "fless fl_0_01 (fabs (fsub (sum_price (items ?c)) (totalPrice ?c)))"
    by (simp add: sum_price_def pyfloat_eval)
  show ?thesis using price_mismatch_rejected [OF h1 h2 h3, of "[''order'']"] by simp
qed

theorem min_order_rejected_witness:
  "\<exists>errs. validate_cart [''order'']
     \<lparr>items = [(''Apples'', \<lparr>qty = 2, price = PyFloat 6 0, pricePerUnit = PyFloat 3 0, imageUrl = ''a.png''\<rparr>)],
      totalQty = 2, totalPrice = PyFloat 6 0\<rparr> = Inl errs \<and>
     VErr [''order'', ''totalQty''] msg_min_order \<in> set errs"
proof -
  let ?c = "\<lparr>items = [(''Apples'', \<lparr>qty = 2, price = PyFloat 6 0, pricePerUnit = PyFloat 3 0, imageUrl = ''a.png''\<rparr>)],
      totalQty = 2, totalPrice = PyFloat 6 0\<rparr> :: cart"
  have h1: "0 \<le> totalQty ?c" by simp
  have h2: "totalQty ?c < 3" by simp
  show ?thesis using min_order_rejected [OF h1 h2, of "[''order'']"] by simp
qed

theorem negative_total_qty_rejected_witness:
  "\<exists>errs. validate_cart [''order'']
     \<lparr>items = [(''Apples'', \<lparr>qty = 2, price = PyFloat 6 0, pricePerUnit = PyFloat 3 0, imageUrl = ''a.png''\<rparr>)],
      totalQty = -1, totalPrice = PyFloat 6 0\<rparr> = Inl errs \<and>
     VErr [''order'', ''totalQty''] msg_ge0 \<in> set errs \<and> (\<forall>e \<in> set errs. err_msg e \<noteq> msg_min_order)"
proof -
  let ?c = "\<lparr>items = [(''Apples'', \<lparr>qty = 2, price = PyFloat 6 0, pricePerUnit = PyFloat 3 0, imageUrl = ''a.png''\<rparr>)],
      totalQty = -1, totalPrice = PyFloat 6 0\<rparr> :: cart"
  have h: "totalQty ?c < 0" by simp
  show ?thesis using negative_total_qty_rejected [OF h, of "[''order'']"] by simp
qed

text \<open>A cart of three items at 0.02 declared at 0.01: in binary64 \<^verbatim>\<open>0.02 - 0.01\<close> is
  exactly the double \<^verbatim>\<open>0.01\<close>, not above it, so the code accepts it.\<close>

theorem validate_cart_iff_witness:
  "validate_cart [''order'']
     \<lparr>items = [(''Cress'', \<lparr>qty = 3, price = PyFloat 5764607523034235 (-58),
                pricePerUnit = PyFloat 5764607523034235 (-58), imageUrl = ''c.png''\<rparr>)],
      totalQty = 3, totalPrice = PyFloat 5764607523034235 (-59)\<rparr> =
   Inr \<lparr>items = [(''Cress'', \<lparr>qty = 3, price = PyFloat 5764607523034235 (-58),
                pricePerUnit = PyFloat 5764607523034235 (-58), imageUrl = ''c.png''\<rparr>)],
      totalQty = 3, totalPrice = PyFloat 5764607523034235 (-59)\<rparr>"
  by (subst validate_cart_iff) (simp add: cart_inv_def item_valid_def sum_qty_def sum_price_def pyfloat_eval)

theorem validate_order_request_iff_witness:
  "validate_order_request (\<lambda>s. Some s)
     \<lparr>phone = ''555-123-4567'', email = ''ann@example.com'', verification = [], shipping = ''1 Main St'',
      order = \<lparr>items = [(''Apples'', \<lparr>qty = 3, price = PyFloat 6 0, pricePerUnit = PyFloat 2 0, imageUrl = ''a.png''\<rparr>)],
               totalQty = 3, totalPrice = PyFloat 6 0\<rparr>,
      cf_token = ''tok''\<rparr> =
   Inr \<lparr>phone = ''555-123-4567'', email = ''ann@example.com'', verification = [], shipping = ''1 Main St'',
      order = \<lparr>items = [(''Apples'', \<lparr>qty = 3, price = PyFloat 6 0, pricePerUnit = PyFloat 2 0, imageUrl = ''a.png''\<rparr>)],
               totalQty = 3, totalPrice = PyFloat 6 0\<rparr>,
      cf_token = ''tok''\<rparr>"
  by (subst validate_order_request_iff) (simp add: cart_inv_def item_valid_def sum_qty_def sum_price_def
      pat_defs pyfloat_eval)

theorem qty_mismatch_masked_witness:
  "\<exists>errs. validate_cart [''order'']
     \<lparr>items = [(''Tomatoes'', \<lparr>qty = 5, price = PyFloat 10 0, pricePerUnit = PyFloat 2 0, imageUrl = ''t.png''\<rparr>)],
      totalQty = 2, totalPrice = PyFloat 10 0\<rparr> = Inl errs \<and>
     VErr [''order'', ''totalQty''] msg_min_order \<in> set errs \<and>
     VErr [''order'', ''totalQty''] msg_qty_mismatch \<notin> set errs"
proof -
  let ?c = "\<lparr>items = [(''Tomatoes'', \<lparr>qty = 5, price = PyFloat 10 0, pricePerUnit = PyFloat 2 0, imageUrl = ''t.png''\<rparr>)],
      totalQty = 2, totalPrice = PyFloat 10 0\<rparr> :: cart"
  have h1: "list_all (item_valid \<circ> snd) (items ?c)" by (simp add: item_valid_def pyfloat_eval)
  have h2: "0 \<le> totalQty ?c" "totalQty ?c < 3" by simp_all
  have h3: "sum_qty (items ?c) \<noteq> totalQty ?c" by (simp add: sum_qty_def)
  show ?thesis using qty_mismatch_masked [OF h1 h2 h3, of "[''order'']"] by simp
qed

theorem validation_accumulates_errors_witness:
  "validate_order_request (\<lambda>_. None)
     \<lparr>phone = ''12345'', email = ''nobody'', verification = [], shipping = ''1 Main St'',
      order = \<lparr>items = [(''Tomatoes'', \<lparr>qty = 1, price = PyFloat 4 0, pricePerUnit = PyFloat 4 0, imageUrl = ''t.png''\<rparr>)],
               totalQty = 1, totalPrice = PyFloat 4 0\<rparr>,
      cf_token = ''tok''\<rparr>
   = Inl [VErr [''body'', ''phone''] msg_phone, VErr [''body'', ''email''] msg_email,
          VErr [''body'', ''order'', ''totalQty''] msg_min_order]"
proof -
  have h1: "\<not> re_match PHONE_PATTERN ''12345''" by (simp add: pat_defs)
  have h2: "validate_cart [''body'', ''order'']
     \<lparr>items = [(''Tomatoes'', \<lparr>qty = 1, price = PyFloat 4 0, pricePerUnit = PyFloat 4 0, imageUrl = ''t.png''\<rparr>)],
      totalQty = 1, totalPrice = PyFloat 4 0\<rparr> = Inl [VErr [''body'', ''order'', ''totalQty''] msg_min_order]"
    by (simp add: validate_cart_eq validate_items_def validate_cart_item_def validator_defs
        sum_qty_def sum_price_def Let_def pyfloat_eval)
  show ?thesis
    using validation_accumulates_errors [of "\<lparr>phone = ''12345'', email = ''nobody'', verification = [],
        shipping = ''1 Main St'',
        order = \<lparr>items = [(''Tomatoes'', \<lparr>qty = 1, price = PyFloat 4 0, pricePerUnit = PyFloat 4 0, imageUrl = ''t.png''\<rparr>)],
                 totalQty = 1, totalPrice = PyFloat 4 0\<rparr>,
        cf_token = ''tok''\<rparr>" "\<lambda>_. None"] h1 h2 by simp
qed

end
