(* ===== verification/BusinessHours.thy ===== *)
theory BusinessHours
  imports Prelude
begin

text \<open>
  The operating-hours gate \<^verbatim>\<open>validate_business_hours\<close> of
  \<^verbatim>\<open>src/lambda/Place-Order.py\<close> (lines 105--125). The code reads the wall clock in the
  \<^verbatim>\<open>America/New_York\<close> zone and uses two of its fields: the weekday name that
  \<^verbatim>\<open>strftime('%A')\<close> prints and the hour. Here those two fields are a record, \<open>clock\<close>,
  which the orchestrator takes from its environment on every request. The conversion from UTC
  to Eastern time, with its daylight-saving rules, is the \<^verbatim>\<open>pytz\<close> library's and is not
  modelled. The gate returns the pair \<^verbatim>\<open>(is_valid, error_message)\<close>.
\<close>

datatype weekday = Monday | Tuesday | Wednesday | Thursday | Friday | Saturday | Sunday

record clock =
  cday :: weekday
  chour :: nat

text \<open>\<^verbatim>\<open>now.strftime('%A')\<close> in the C locale a Lambda function runs in.\<close>

fun strftime_A :: "weekday \<Rightarrow> string" where
  "strftime_A Monday = ''Monday''"
| "strftime_A Tuesday = ''Tuesday''"
| "strftime_A Wednesday = ''Wednesday''"
| "strftime_A Thursday = ''Thursday''"
| "strftime_A Friday = ''Friday''"
| "strftime_A Saturday = ''Saturday''"
| "strftime_A Sunday = ''Sunday''"

definition hours_msg :: string where
  "hours_msg = ''Our business hours are Mon-Sat 8am-8pm.''"

definition validate_business_hours :: "clock \<Rightarrow> bool \<times> string" where
  "validate_business_hours now =
     (let current_day = strftime_A (cday now);
          current_hour = chour now
      in if current_day = ''Sunday'' then (False, hours_msg)
         else if current_hour < 8 \<or> 20 \<le> current_hour then (False, hours_msg)
         else (True, []))"

text \<open>The spec's operating window (section 4.3): Monday to Saturday, 08:00 to 20:00.\<close>

definition open_at :: "weekday \<Rightarrow> nat \<Rightarrow> bool" where
  "open_at d h = (d \<noteq> Sunday \<and> 8 \<le> h \<and> h < 20)"

lemma strftime_A_Sunday_iff [simp]: "strftime_A d = ''Sunday'' \<longleftrightarrow> d = Sunday"
  by (cases d) simp_all

lemma validate_business_hours_open:
  "validate_business_hours now =
     (if open_at (cday now) (chour now) then (True, []) else (False, hours_msg))"
  by (auto simp: validate_business_hours_def open_at_def Let_def)

text \<open>
  C11: the gate implements the spec's window: it lets a request through exactly on Monday
  to Saturday from 08:00 up to but not including 20:00, with an empty message, and at any
  other time refuses with the fixed business-hours message.
\<close>

theorem validate_business_hours_iff:
  "(fst (validate_business_hours now) \<longleftrightarrow>
      cday now \<noteq> Sunday \<and> 8 \<le> chour now \<and> chour now < 20) \<and>
   snd (validate_business_hours now) = (if fst (validate_business_hours now) then [] else hours_msg)"
  by (simp add: validate_business_hours_open open_at_def)

theorem validate_business_hours_iff_witness:
  "\<not> fst (validate_business_hours \<lparr>cday = Tuesday, chour = 21\<rparr>) \<and>
   snd (validate_business_hours \<lparr>cday = Tuesday, chour = 21\<rparr>) = hours_msg"
  using validate_business_hours_iff [of "\<lparr>cday = Tuesday, chour = 21\<rparr>"] by simp

end
