(* ===== verification/OrderId.thy ===== *)
theory OrderId
  imports Prelude
begin

text \<open>
  The order identifier of \<^verbatim>\<open>process_order\<close> (\<^verbatim>\<open>src/lambda/Place-Order.py\<close>,
  line 421): \<^verbatim>\<open>order_id = str(uuid.uuid4())[:8].upper()\<close>.
  \<^verbatim>\<open>uuid4\<close> takes 128 random bits (\<^verbatim>\<open>os.urandom(16)\<close>, read big-endian) and sets
  the variant bits 62--63 and the version bits 76--79, as \<^verbatim>\<open>UUID.__init__\<close> does with
  \<^verbatim>\<open>version=4\<close>. \<^verbatim>\<open>str\<close> prints the 128-bit integer as 32 lower-case hex digits in
  groups 8-4-4-4-12, and the code keeps the first group, upper-cased. The random word is a
  \<open>128 word\<close>, so the masks are the code's bit operations.
  The lemmas show that the identifier is eight upper-case hex digits and that it is exactly
  the top 32 random bits: decoding it gives them back. So two requests get the same
  identifier exactly when their random values agree in those 32 bits, and nothing checks
  for that.
\<close>

unbundle bit_operations_syntax

type_synonym u128 = "128 word"

text \<open>\<^verbatim>\<open>uuid.uuid4()\<close> from the 128 random bits.\<close>

definition uuid4 :: "u128 \<Rightarrow> u128" where
  "uuid4 r =
     (((r AND NOT (push_bit 48 0xc000)) OR push_bit 48 0x8000) AND NOT (push_bit 64 0xf000))
     OR push_bit 76 4"

text \<open>\<^verbatim>\<open>'%032x' % int\<close>: fixed-width, zero-padded, lower-case hex of a natural number.\<close>

definition hex_digit :: "nat \<Rightarrow> char" where
  "hex_digit n = (if n < 10 then char_of (48 + n) else char_of (87 + n))"

fun hex_format :: "nat \<Rightarrow> nat \<Rightarrow> string" where
  "hex_format 0 x = []"
| "hex_format (Suc n) x = hex_format n (x div 16) @ [hex_digit (x mod 16)]"

text \<open>\<^verbatim>\<open>UUID.__str__\<close>.\<close>

definition uuid_str :: "u128 \<Rightarrow> string" where
  "uuid_str u =
     (let h = hex_format 32 (unat u)
      in take 8 h @ ''-'' @ take 4 (drop 8 h) @ ''-'' @ take 4 (drop 12 h) @ ''-'' @
         take 4 (drop 16 h) @ ''-'' @ drop 20 h)"

definition order_id_of :: "u128 \<Rightarrow> string" where
  "order_id_of r = py_upper (take 8 (uuid_str (uuid4 r)))"

text \<open>Reading an upper-case hex string back as a number, the inverse used by the round trip.\<close>

definition hex_val :: "char \<Rightarrow> nat" where
  "hex_val c = (if of_char c \<le> (57 :: nat) then of_char c - 48 else of_char c - 55)"

definition hex_decode :: "string \<Rightarrow> nat" where
  "hex_decode s = foldl (\<lambda>acc c. 16 * acc + hex_val c) 0 s"

definition is_upper_hex :: "char \<Rightarrow> bool" where
  "is_upper_hex c =
     (let n = of_char c :: nat in (48 \<le> n \<and> n \<le> 57) \<or> (65 \<le> n \<and> n \<le> 70))"

lemma drop_bit_uuid4: "drop_bit 96 (uuid4 r) = drop_bit 96 r"
proof (rule bit_word_eqI)
  fix n :: nat
  assume "n < LENGTH(128)"
  have m: "(4294967295 :: u128) = mask 32" by (simp add: mask_eq_exp_minus_1)
  show "bit (drop_bit 96 (uuid4 r)) n = bit (drop_bit 96 r) n"
    by (auto simp: uuid4_def bit_simps m dest: bit_imp_le_length)
qed

lemma unat_drop_bit_div: "unat (drop_bit n w) = unat w div 2 ^ n"
  unfolding unat_drop_bit_eq by (rule drop_bit_eq_div)

lemma hex_format_pos:
  "0 < n \<Longrightarrow> hex_format n x = hex_format (n - 1) (x div 16) @ [hex_digit (x mod 16)]"
  by (cases n) auto

lemma hex_format_numeral:
  "hex_format (numeral k) x = hex_format (pred_numeral k) (x div 16) @ [hex_digit (x mod 16)]"
  using hex_format_pos [of "numeral k" x] by simp

lemma length_hex_format [simp]: "length (hex_format n x) = n"
  by (induction n arbitrary: x) auto

lemma take_hex_format: "take m (hex_format (m + k) x) = hex_format m (x div 16 ^ k)"
proof (induction k arbitrary: x)
  case 0
  then show ?case by simp
next
  case (Suc k)
  have "take m (hex_format (m + Suc k) x) = take m (hex_format (m + k) (x div 16))"
    by simp
  also have "\<dots> = hex_format m (x div 16 div 16 ^ k)" by (rule Suc.IH)
  also have "x div 16 div 16 ^ k = x div 16 ^ Suc k" by (simp add: div_mult2_eq)
  finally show ?case .
qed

lemma take_uuid_str: "take 8 (uuid_str u) = hex_format 8 (unat u div 2 ^ 96)"
proof -
  have "take 8 (uuid_str u) = take 8 (hex_format 32 (unat u))"
    by (simp add: uuid_str_def Let_def)
  also have "\<dots> = hex_format 8 (unat u div 16 ^ 24)"
    using take_hex_format [of 8 24 "unat u"] by simp
  finally show ?thesis by simp
qed

lemma order_id_of_eq: "order_id_of r = py_upper (hex_format 8 (unat (drop_bit 96 r)))"
proof -
  have "unat (uuid4 r) div 2 ^ 96 = unat (drop_bit 96 (uuid4 r))"
    by (simp only: unat_drop_bit_div)
  also have "\<dots> = unat (drop_bit 96 r)" by (simp only: drop_bit_uuid4)
  finally show ?thesis by (simp add: order_id_of_def take_uuid_str)
qed

lemma hex_val_upper_digit: "d < 16 \<Longrightarrow> hex_val (py_upper_char (hex_digit d)) = d"
  by (auto simp: hex_val_def hex_digit_def py_upper_char_def Let_def)

lemma hex_decode_hex_format: "hex_decode (py_upper (hex_format n x)) = x mod 16 ^ n"
proof (induction n arbitrary: x)
  case 0
  then show ?case by (simp add: hex_decode_def py_upper_def)
next
  case (Suc n)
  have "hex_decode (py_upper (hex_format (Suc n) x)) =
      16 * hex_decode (py_upper (hex_format n (x div 16))) + x mod 16"
    by (simp add: hex_decode_def py_upper_def hex_val_upper_digit)
  also have "\<dots> = 16 * (x div 16 mod 16 ^ n) + x mod 16" by (simp only: Suc.IH)
  also have "\<dots> = x mod 16 ^ Suc n" by (simp add: mod_mult2_eq)
  finally show ?case .
qed

text \<open>
  C21: the order identifier determines the random value's top 32 bits. Read back as a
  hex number, it is exactly those bits, so the identifier loses nothing else and two
  requests collide exactly when those bits agree.
\<close>

theorem order_id_roundtrip: "hex_decode (order_id_of r) = unat (drop_bit 96 r)"
proof -
  have "unat r < 2 ^ 32 * 2 ^ 96" using unsigned_less [of r] by simp
  then have "unat r div 2 ^ 96 < 2 ^ 32" by (rule less_mult_imp_div_less)
  then have "unat (drop_bit 96 r) < 16 ^ 8" by (simp only: unat_drop_bit_div) simp
  then show ?thesis by (simp add: order_id_of_eq hex_decode_hex_format)
qed

lemma upper_hex_digit: "d < 16 \<Longrightarrow> is_upper_hex (py_upper_char (hex_digit d))"
  by (simp add: is_upper_hex_def hex_digit_def py_upper_char_def Let_def)

text \<open>
  C20: every order identifier is eight characters long and each one is a digit or an
  upper-case letter \<^verbatim>\<open>A\<close> to \<^verbatim>\<open>F\<close>.
\<close>

theorem order_id_wellformed: "length (order_id_of r) = 8 \<and> list_all is_upper_hex (order_id_of r)"
proof -
  have "list_all is_upper_hex (py_upper (hex_format n x))" for n x
    by (induction n arbitrary: x) (simp_all add: py_upper_def upper_hex_digit)
  then show ?thesis by (simp add: order_id_of_eq py_upper_def)
qed

corollary order_id_eq_iff: "order_id_of r1 = order_id_of r2 \<longleftrightarrow> drop_bit 96 r1 = drop_bit 96 r2"
proof
  assume "order_id_of r1 = order_id_of r2"
  then have "unat (drop_bit 96 r1) = unat (drop_bit 96 r2)"
    by (metis order_id_roundtrip)
  then show "drop_bit 96 r1 = drop_bit 96 r2" by (rule unsigned_word_eqI)
qed (simp add: order_id_of_eq)

theorem order_id_example: "order_id_of 0x9f3c2a1b00000000000000000000beef = ''9F3C2A1B''"
  by (simp add: order_id_of_eq unat_drop_bit_div py_simps hex_digit_def hex_format_numeral)

end
