(* ===== verification/AntiAbuse.thy ===== *)
theory AntiAbuse
  imports Prelude
begin

text \<open>
  The two anti-abuse checks that call out of the process, in
  \<^verbatim>\<open>src/lambda/Place-Order.py\<close>: \<^verbatim>\<open>is_domain_real\<close> (lines 276--299) and
  \<^verbatim>\<open>verify_turnstile_token\<close> (lines 387--398). The honeypot test is a single
  \<^verbatim>\<open>if\<close> of the orchestrator and is modelled there.
  The outside world is a parameter. The DNS resolver maps a domain and a record type to the
  number of records in the answer, or to the exception \<^verbatim>\<open>dns.resolver.resolve\<close> raises.
  The Turnstile service maps the secret and the token to the decoded JSON body of its
  answer, or to an exception: a network error, or a body that is not JSON. The disposable
  domain blocklist is a set of strings. Each check returns its result together with the
  events it caused: its log lines and its outbound calls.
\<close>

section \<open>Email domain check\<close>

datatype dns_exc = NoAnswer | NXDOMAIN | NoNameservers | LifetimeTimeout | OtherDnsError

type_synonym resolver = "string \<Rightarrow> rdtype \<Rightarrow> dns_exc + nat"

text \<open>\<^verbatim>\<open>email.split('@')[-1]\<close>; \<open>None\<close> would be an \<^verbatim>\<open>IndexError\<close>.\<close>

definition domain_of :: "string \<Rightarrow> string option" where
  "domain_of email = py_last (py_split CHR ''@'' email)"

text \<open>The part of an address after its last \<^verbatim>\<open>@\<close> (all of it when there is none).\<close>

definition email_domain :: "string \<Rightarrow> string" where
  "email_domain email = rev (takeWhile (\<lambda>c. c \<noteq> CHR ''@'') (rev email))"

definition blocklist_msg :: "string \<Rightarrow> string" where
  "blocklist_msg domain = ''BLOCKLIST: Caught disposable email domain: '' @ domain"

text \<open>
  Every exception inside the \<^verbatim>\<open>try\<close> is caught and makes the check fail, so a failed
  resolution ends the check where it happens.
\<close>

definition is_domain_real :: "string set \<Rightarrow> resolver \<Rightarrow> string \<Rightarrow> bool traced" where
  "is_domain_real blocklist resolve email =
     (case domain_of email of
        None \<Rightarrow> (False, [])
      | Some domain \<Rightarrow>
          (if domain \<in> blocklist then (False, [Print (blocklist_msg domain)])
           else
             (case resolve domain MX of
                Inl _ \<Rightarrow> (False, [DnsResolve domain MX])
              | Inr mx_records \<Rightarrow>
                  (if mx_records = 0 then (False, [DnsResolve domain MX])
                   else
                     (case resolve domain NS of
                        Inl _ \<Rightarrow> (False, [DnsResolve domain MX, DnsResolve domain NS])
                      | Inr ns_records \<Rightarrow>
                          (if ns_records = 0 then (False, [DnsResolve domain MX, DnsResolve domain NS])
                           else (True, [DnsResolve domain MX, DnsResolve domain NS])))))))"

text \<open>A domain that passes: not blocklisted, with MX and NS records.\<close>

definition domain_ok :: "string set \<Rightarrow> resolver \<Rightarrow> string \<Rightarrow> bool" where
  "domain_ok blocklist resolve d =
     (d \<notin> blocklist \<and> (\<exists>n. resolve d MX = Inr n \<and> 0 < n) \<and> (\<exists>n. resolve d NS = Inr n \<and> 0 < n))"

section \<open>Turnstile verification\<close>

datatype http_outcome = HttpOk json | HttpRaises string

type_synonym turnstile_service = "string option \<Rightarrow> string \<Rightarrow> http_outcome"

definition turnstile_url :: string where
  "turnstile_url = ''https://challenges.cloudflare.com/turnstile/v0/siteverify''"

text \<open>
  The result is whatever \<^verbatim>\<open>result.get("success", False)\<close> returns; the caller tests its
  truth value. \<^verbatim>\<open>.get\<close> on a body that is not a JSON object raises.
\<close>

definition verify_turnstile_token ::
  "turnstile_service \<Rightarrow> string option \<Rightarrow> string \<Rightarrow> (exn + json) traced" where
  "verify_turnstile_token post cloudflare_key token =
     (let ev = [TurnstilePost turnstile_url cloudflare_key token]
      in case post cloudflare_key token of
           HttpRaises e \<Rightarrow> (Inl (Exn e), ev)
         | HttpOk result \<Rightarrow>
             (case json_get result ''success'' (JBool False) of
                None \<Rightarrow> (Inl (Exn (no_get_msg result)), ev)
              | Some v \<Rightarrow> (Inr v, ev)))"

text \<open>The service's answer counts as a pass: a JSON object whose \<^verbatim>\<open>success\<close> is truthy.\<close>

definition turnstile_pass :: "http_outcome \<Rightarrow> bool" where
  "turnstile_pass ans =
     (case ans of
        HttpOk (JObj kvs) \<Rightarrow> (case map_of kvs ''success'' of None \<Rightarrow> False | Some v \<Rightarrow> py_truthy v)
      | _ \<Rightarrow> False)"

definition turnstile_raises :: "http_outcome \<Rightarrow> bool" where
  "turnstile_raises ans = (case ans of HttpOk (JObj _) \<Rightarrow> False | _ \<Rightarrow> True)"

section \<open>Lemmas\<close>

lemma tl_py_split_Nil_iff: "tl (py_split d s) = [] \<longleftrightarrow> d \<notin> set s"
proof (induction s)
  case Nil
  then show ?case by simp
next
  case (Cons c cs)
  then show ?case by (cases "py_split d cs") auto
qed

lemma last_py_split: "last (py_split d s) = rev (takeWhile (\<lambda>c. c \<noteq> d) (rev s))"
proof (induction s)
  case Nil
  then show ?case by simp
next
  case (Cons c cs)
  obtain v vs where vs: "py_split d cs = v # vs" by (cases "py_split d cs") auto
  show ?case
  proof (cases "d \<in> set cs")
    case True
    then have "vs \<noteq> []" using tl_py_split_Nil_iff [of d cs] vs by simp
    moreover have "takeWhile (\<lambda>c. c \<noteq> d) (rev cs @ [c]) = takeWhile (\<lambda>c. c \<noteq> d) (rev cs)"
      using True by (simp add: takeWhile_append1)
    ultimately show ?thesis using Cons.IH vs by (auto simp: py_split_Cons_other)
  next
    case False
    then have "py_split d cs = [cs]" by (rule py_split_no_sep_self)
    moreover have "takeWhile (\<lambda>x. x \<noteq> d) (rev cs @ [c]) = rev cs @ takeWhile (\<lambda>x. x \<noteq> d) [c]"
      using False by (intro takeWhile_append2) auto
    ultimately show ?thesis by auto
  qed
qed

lemma domain_of_eq: "domain_of email = Some (email_domain email)"
  by (simp add: domain_of_def last_py_split email_domain_def)

lemma is_domain_real_ok:
  "fst (is_domain_real blocklist resolve email) \<longleftrightarrow> domain_ok blocklist resolve (email_domain email)"
  by (auto simp: is_domain_real_def domain_of_eq domain_ok_def split: sum.splits)

lemma verify_turnstile_token_raises:
  "(\<exists>e. fst (verify_turnstile_token post key token) = Inl e) \<longleftrightarrow> turnstile_raises (post key token)"
proof (cases "post key token")
  case (HttpOk j)
  then show ?thesis
    by (cases j) (auto simp: verify_turnstile_token_def turnstile_raises_def)
qed (simp add: verify_turnstile_token_def turnstile_raises_def)

lemma verify_turnstile_token_value:
  "\<not> turnstile_raises (post key token) \<Longrightarrow>
     \<exists>v. fst (verify_turnstile_token post key token) = Inr v \<and>
         (py_truthy v \<longleftrightarrow> turnstile_pass (post key token))"
proof (cases "post key token")
  case (HttpOk j)
  moreover assume "\<not> turnstile_raises (post key token)"
  ultimately show ?thesis
    by (cases j) (auto simp: verify_turnstile_token_def turnstile_raises_def turnstile_pass_def
        split: option.splits)
qed (simp add: turnstile_raises_def)

lemma verify_turnstile_token_events:
  "snd (verify_turnstile_token post key token) = [TurnstilePost turnstile_url key token]"
  by (simp add: verify_turnstile_token_def Let_def split: http_outcome.splits option.splits)

lemma is_domain_real_events:
  "snd (is_domain_real blocklist resolve email) \<noteq> [] \<and>
   list_all (\<lambda>e. \<not> is_ses_send e) (snd (is_domain_real blocklist resolve email))"
  by (auto simp: is_domain_real_def domain_of_eq is_ses_send_def split: sum.splits)

text \<open>
  C8: the domain check passes exactly when the part of the address after its last
  \<^verbatim>\<open>@\<close> is not on the blocklist and the resolver answers both the MX and the NS
  query with at least one record; every resolver exception and every empty answer rejects,
  so the check fails closed. A blocklisted domain is never looked up, and the NS query is
  made only after a non-empty MX answer.
\<close>

theorem is_domain_real_spec:
  "(fst (is_domain_real blocklist resolve email) \<longleftrightarrow>
      domain_ok blocklist resolve (email_domain email)) \<and>
   (email_domain email \<in> blocklist \<longrightarrow>
      snd (is_domain_real blocklist resolve email) = [Print (blocklist_msg (email_domain email))]) \<and>
   (DnsResolve (email_domain email) NS \<in> set (snd (is_domain_real blocklist resolve email)) \<longrightarrow>
      (\<exists>n. resolve (email_domain email) MX = Inr n \<and> 0 < n))"
proof (intro conjI impI)
  show "fst (is_domain_real blocklist resolve email) \<longleftrightarrow> domain_ok blocklist resolve (email_domain email)"
    by (rule is_domain_real_ok)
qed (auto simp: is_domain_real_def domain_of_eq split: sum.splits if_splits)

text \<open>
  C10: the Turnstile check makes exactly one POST to the verification endpoint, carrying
  the server secret and the client token. Its result is a truthy value exactly when the
  service answered a JSON object whose \<^verbatim>\<open>success\<close> is truthy, and it raises exactly when
  the call failed or the body is not a JSON object.
\<close>

theorem verify_turnstile_token_spec:
  "snd (verify_turnstile_token post key token) = [TurnstilePost turnstile_url key token] \<and>
   ((\<exists>v. fst (verify_turnstile_token post key token) = Inr v \<and> py_truthy v) \<longleftrightarrow>
      turnstile_pass (post key token)) \<and>
   ((\<exists>e. fst (verify_turnstile_token post key token) = Inl e) \<longleftrightarrow>
      turnstile_raises (post key token))"
using verify_turnstile_token_events verify_turnstile_token_raises [of post key token]
    verify_turnstile_token_value [of post key token]
  by (auto simp: turnstile_pass_def turnstile_raises_def split: http_outcome.splits json.splits)

section \<open>Witnesses\<close>

theorem is_domain_real_spec_witness:
  "fst (is_domain_real {''mailinator.com''} (\<lambda>d t. Inr 2) ''bot@mailinator.com'') = False \<and>
   snd (is_domain_real {''mailinator.com''} (\<lambda>d t. Inr 2) ''bot@mailinator.com'') =
     [Print (blocklist_msg ''mailinator.com'')]"
  using is_domain_real_spec [of "{''mailinator.com''}" "\<lambda>d t. Inr 2" "''bot@mailinator.com''"]
  by (simp add: email_domain_def domain_ok_def)

theorem verify_turnstile_token_spec_witness:
  "\<exists>v. fst (verify_turnstile_token (\<lambda>k t. HttpOk (JObj [(''success'', JBool True)])) (Some ''key'') ''tok'')
     = Inr v \<and> py_truthy v"
  using verify_turnstile_token_spec [of "\<lambda>k t. HttpOk (JObj [(''success'', JBool True)])" "Some ''key''" "''tok''"]
  by (simp add: turnstile_pass_def)

end
