(* ===== verification/Templates.thy ===== *)
theory Templates
  imports PyFloat "HOL-Library.Sublist"
begin

text \<open>
  The email template functions of \<^verbatim>\<open>src/lambda/Place-Order.py\<close> (lines 131--269):
  \<^verbatim>\<open>create_product_html\<close>, \<^verbatim>\<open>create_order_html\<close> and
  \<^verbatim>\<open>create_customer_confirmation_html\<close>. Each is one Python f-string; here it is the list
  of its source lines joined by newlines, every literal piece copied from the source and every
  replacement field \<^verbatim>\<open>{...}\<close> replaced by the value Python formats there:
  \<^verbatim>\<open>str\<close> of an \<^verbatim>\<open>int\<close>, the \<^verbatim>\<open>.2f\<close> format of a float price (CPython rounds the exact binary
  value of the double to two decimals, ties to even), \<^verbatim>\<open>str\<close> of a possibly unset environment variable. The one non-ASCII
  character of the templates is written as its UTF-8 bytes, which is what SES is sent.
  Nothing is escaped: customer-supplied text lands in the HTML as it is.
\<close>

section \<open>Formatting numbers\<close>

text \<open>\<^verbatim>\<open>str(n)\<close> for a natural number: its decimal digits, most significant first.\<close>

fun dec_nat :: "nat \<Rightarrow> string" where
  "dec_nat n = (if n < 10 then [char_of (48 + n)] else dec_nat (n div 10) @ [char_of (48 + n mod 10)])"

definition py_str_int :: "int \<Rightarrow> string" where
  "py_str_int i = (if i < 0 then ''-'' @ dec_nat (nat (- i)) else dec_nat (nat i))"

text \<open>\<^verbatim>\<open>f"{x:.2f}"\<close> of a double \<open>m * 2^e\<close>: the sign of \<open>m\<close>, then the
  number of cents \<open>|m| * 100 * 2^e\<close>, rounded to the nearest integer with ties to even
  (\<^const>\<open>round_shift\<close>), printed as whole units, a point and two digits.\<close>

definition py_format_2f :: "pyfloat \<Rightarrow> string" where
  "py_format_2f x =
     (case x of PyFloat m e \<Rightarrow>
        let c = nat (if 0 \<le> e then \<bar>m\<bar> * 100 * 2 ^ nat e else round_shift (\<bar>m\<bar> * 100) (nat (- e)))
        in (if m < 0 then ''-'' else []) @ dec_nat (c div 100) @ ''.'' @
           [char_of (48 + c mod 100 div 10), char_of (48 + c mod 10)])"

text \<open>\<^verbatim>\<open>str(v)\<close> of a value read with \<^verbatim>\<open>os.getenv\<close>, \<^verbatim>\<open>None\<close> when it is unset.\<close>

fun py_str_opt :: "string option \<Rightarrow> string" where
  "py_str_opt None = ''None''"
| "py_str_opt (Some s) = s"

section \<open>The templates\<close>

definition create_product_html :: "string \<Rightarrow> pyfloat \<Rightarrow> string \<Rightarrow> int \<Rightarrow> string" where
  \<open>create_product_html name price image_url qty =
     py_join (CHR 10)
       [[],
        ''    <table role="presentation" width="100%" cellspacing="0" cellpadding="0" style="margin: 16px 0; border-bottom: 1px solid #e0e0e0;">'',
        ''        <tr>'',
        ''            <td style="width: 80px; padding-bottom: 16px; vertical-align: top;">'',
        ''                <img src="'' @ image_url @ ''" width="80" height="80" style="display: block; object-fit: contain; border-radius: 4px; border: 1px solid #f0f0f0;" alt="'' @ name @ ''">'',
        ''            </td>'',
        ''            '',
        ''            <td style="padding: 0 12px 16px 12px; vertical-align: top;">'',
        ''                <h4 style="margin: 0 0 4px 0; font-size: 16px; font-weight: 600; color: #333;">'' @ name @ ''</h4>'',
        ''                <p style="margin: 0; font-size: 14px; font-weight: 600; color: #2e7d32;">$'' @ py_format_2f price @ ''</p>'',
        ''            </td>'',
        ''            '',
        ''            <td style="width: 60px; padding-bottom: 16px; vertical-align: top; text-align: right;">'',
        ''                <span style="font-size: 14px; color: #666; font-weight: bold;">Qty: '' @ py_str_int qty @ ''</span>'',
        ''            </td>'',
        ''        </tr>'',
        ''    </table>'',
        ''    '']\<close>

definition create_order_html ::
  "string list \<Rightarrow> int \<Rightarrow> pyfloat \<Rightarrow> string \<Rightarrow> string \<Rightarrow> string \<Rightarrow> string \<Rightarrow> string" where
  \<open>create_order_html products total_qty total_price email phone shipping order_id =
     (let products_html = concat products
      in py_join (CHR 10)
       [[],
        ''    <!DOCTYPE html>'',
        ''    <html>'',
        ''    <head>'',
        ''        <meta charset="UTF-8">'',
        ''        <meta name="viewport" content="width=device-width, initial-scale=1.0">'',
        ''        <title>New Order</title>'',
        ''    </head>'',
        ''    <body style="margin: 0; padding: 20px; font-family: -apple-system, BlinkMacSystemFont, \'Segoe UI\', Roboto, \'Helvetica Neue\', Arial, sans-serif; background-color: #f5f5f5;">'',
        ''        <div style="max-width: 600px; margin: 0 auto; background-color: #ffffff; border-radius: 8px; overflow: hidden; box-shadow: 0 2px 8px rgba(0,0,0,0.1);">'',
        ''            '',
        ''            <!-- Header -->'',
        ''            <div style="background-color: #2e7d32; padding: 30px 20px; text-align: center;">'',
        ''                <h2 style="margin: 0; font-size: 28px; color: #ffffff; font-weight: 600;">New Order Received</h2>'',
        ''                <p style="margin: 10px 0 0 0; color: #c8e6c9; font-size: 14px;">Order ID: '' @ order_id @ ''</p>'',
        ''            </div>'',
        ''            '',
        ''            <!-- Products Section -->'',
        ''            <div style="padding: 30px 20px;">'',
        ''                <h3 style="margin: 0 0 20px 0; font-size: 20px; color: #333; font-weight: 600;">Order Items</h3>'',
        ''                '' @ products_html,
        ''            </div>'',
        ''            '',
        ''            <!-- Total Section -->'',
        ''            <div style="margin: 20px; padding: 24px; background-color: #f9f9f9; border-radius: 8px; border: 1px solid #e0e0e0;">'',
        ''                <div style="text-align: center; margin-bottom: 20px;">'',
        ''                    <p style="margin: 0 0 8px 0; font-size: 18px; color: #666;">'' @ py_str_int total_qty @ '' Item'' @ (if total_qty \<noteq> 1 then ''s'' else []) @ ''</p>'',
        ''                    <p style="margin: 0; font-size: 24px; font-weight: 700; color: #2e7d32;">Total: $'' @ py_format_2f total_price @ ''</p>'',
        ''                </div>'',
        ''                '',
        ''                <!-- Customer Details -->'',
        ''                <div style="padding-top: 20px; border-top: 1px solid #e0e0e0;">'',
        ''                    <h4 style="margin: 0 0 16px 0; font-size: 16px; color: #333; font-weight: 600;">Customer Information</h4>'',
        ''                    <table style="width: 100%; border-collapse: collapse;">'',
        ''                        <tr>'',
        ''                            <td style="padding: 8px 0; font-weight: 600; color: #666; font-size: 14px; width: 100px;">Email:</td>'',
        ''                            <td style="padding: 8px 0; color: #333; font-size: 14px;">'' @ email @ ''</td>'',
        ''                        </tr>'',
        ''                        <tr>'',
        ''                            <td style="padding: 8px 0; font-weight: 600; color: #666; font-size: 14px;">Phone:</td>'',
        ''                            <td style="padding: 8px 0; color: #333; font-size: 14px;">'' @ phone @ ''</td>'',
        ''                        </tr>'',
        ''                        <tr>'',
        ''                            <td style="padding: 8px 0; font-weight: 600; color: #666; font-size: 14px;">Shipping:</td>'',
        ''                            <td style="padding: 8px 0; color: #333; font-size: 14px;">'' @ shipping @ ''</td>'',
        ''                        </tr>'',
        ''                    </table>'',
        ''                </div>'',
        ''            </div>'',
        ''            '',
        ''            <!-- Footer -->'',
        ''            <div style="padding: 20px; text-align: center; background-color: #fafafa; border-top: 1px solid #e0e0e0;">'',
        ''                <p style="margin: 0; color: #999; font-size: 12px;">This is an automated order notification</p>'',
        ''            </div>'',
        ''            '',
        ''        </div>'',
        ''    </body>'',
        ''    </html>'',
        ''    ''])\<close>

text \<open>
  \<^verbatim>\<open>create_customer_confirmation_html\<close> also reads the module global
  \<^verbatim>\<open>SUPPORT_EMAIL\<close>, its first argument here.
\<close>

definition create_customer_confirmation_html ::
  "string option \<Rightarrow> string list \<Rightarrow> int \<Rightarrow> pyfloat \<Rightarrow> string \<Rightarrow> string" where
  \<open>create_customer_confirmation_html support_email products total_qty total_price order_id =
     (let products_html = concat products
      in py_join (CHR 10)
       [[],
        ''    <!DOCTYPE html>'',
        ''    <html>'',
        ''    <head>'',
        ''        <meta charset="UTF-8">'',
        ''        <meta name="viewport" content="width=device-width, initial-scale=1.0">'',
        ''        <title>Order Confirmation</title>'',
        ''    </head>'',
        ''    <body style="margin: 0; padding: 20px; font-family: -apple-system, BlinkMacSystemFont, \'Segoe UI\', Roboto, \'Helvetica Neue\', Arial, sans-serif; background-color: #f5f5f5;">'',
        ''        <div style="max-width: 600px; margin: 0 auto; background-color: #ffffff; border-radius: 8px; overflow: hidden; box-shadow: 0 2px 8px rgba(0,0,0,0.1);">'',
        ''            '',
        ''            <!-- Header -->'',
        ''            <div style="background: linear-gradient(135deg, #2e7d32 0%, #43a047 100%); padding: 40px 20px; text-align: center;">'',
        ''                <h2 style="margin: 0; font-size: 28px; color: #ffffff; font-weight: 600;">Thank You for Your Order! '' @ [CHR 0xF0, CHR 0x9F, CHR 0x8E, CHR 0x89] @ ''</h2>'',
        ''                <p style="margin: 12px 0 0 0; color: #c8e6c9; font-size: 14px;">Order ID: '' @ order_id @ ''</p>'',
        ''            </div>'',
        ''            '',
        ''            <!-- Products Section -->'',
        ''            <div style="padding: 30px 20px;">'',
        ''                <h3 style="margin: 0 0 20px 0; font-size: 20px; color: #333; font-weight: 600; text-align: center;">Your Order Summary</h3>'',
        ''                '' @ products_html,
        ''            </div>'',
        ''            '',
        ''            <!-- Total Section -->'',
        ''            <div style="margin: 20px; padding: 24px; background-color: #f9f9f9; border-radius: 8px; border: 2px solid #2e7d32; text-align: center;">'',
        ''                <p style="margin: 0 0 8px 0; font-size: 18px; color: #666;">'' @ py_str_int total_qty @ '' Item'' @ (if total_qty \<noteq> 1 then ''s'' else []) @ ''</p>'',
        ''                <p style="margin: 0; font-size: 28px; font-weight: 700; color: #2e7d32;">Total: $'' @ py_format_2f total_price @ ''</p>'',
        ''            </div>'',
        ''            '',
        ''            <!-- Confirmation Message -->'',
        ''            <div style="margin: 20px; padding: 24px; background: linear-gradient(135deg, #e8f5e9 0%, #c8e6c9 100%); border-radius: 8px; text-align: center;">'',
        ''                <p style="margin: 0; color: #1b5e20; font-weight: 600; font-size: 16px; line-height: 1.5;">'',
        ''                    We\'ve received your order and will contact you soon to confirm delivery details!'',
        ''                </p>'',
        ''            </div>'',
        ''            '',
        ''            <!-- Footer -->'',
        ''            <div style="padding: 24px 20px; text-align: center; background-color: #fafafa; border-top: 1px solid #e0e0e0;">'',
        ''                <p style="margin: 0 0 8px 0; color: #666; font-size: 14px;">Questions about your order?</p>'',
        ''                <p style="margin: 0; color: #2e7d32; font-size: 14px; font-weight: 600;">Contact us at $'' @ py_str_opt support_email @ ''</p>'',
        ''            </div>'',
        ''            '',
        ''        </div>'',
        ''    </body>'',
        ''    </html>'',
        ''    ''])\<close>

declare dec_nat.simps [simp del]

lemma dec_nat_digit [simp]: "n < 10 \<Longrightarrow> dec_nat n = [char_of (48 + n)]"
  by (simp add: dec_nat.simps)

lemma dec_nat_step [simp]: "\<not> n < 10 \<Longrightarrow> dec_nat n = dec_nat (n div 10) @ [char_of (48 + n mod 10)]"
  by (subst dec_nat.simps) simp

lemma sublist_py_join_nth:
  "i < length ws \<Longrightarrow> sublist x (ws ! i) \<Longrightarrow> sublist x (py_join d ws)"
proof (induction d ws arbitrary: i rule: py_join.induct)
  case (3 d w v vs)
  show ?case
  proof (cases i)
    case 0
    with "3.prems" show ?thesis by (auto intro: sublist_order.order.trans)
  next
    case (Suc j)
    have "sublist (py_join d (v # vs)) (w @ d # py_join d (v # vs))"
      using sublist_append_leftI [of "py_join d (v # vs)" "w @ [d]"] by simp
    with Suc "3.prems" "3.IH" [of j] show ?thesis
      by (auto intro: sublist_order.order.trans)
  qed
qed auto

lemma sublist_Cons_intro: "sublist xs ys \<Longrightarrow> sublist xs (y # ys)"
  by (rule sublist_Cons_right [THEN iffD2]) simp

lemma sublist_py_join_at:
  "i < length ws \<Longrightarrow> ws ! i = ps @ x @ ss \<Longrightarrow> sublist x (py_join d ws)"
  by (metis sublist_appendI sublist_py_join_nth)

lemma sublist_py_join_at_end:
  "i < length ws \<Longrightarrow> ws ! i = ps @ x \<Longrightarrow> sublist x (py_join d ws)"
  by (metis sublist_append_leftI sublist_py_join_nth)

lemmas nth_literal = eval_nat_numeral BitM.simps nth_Cons_Suc nth_Cons_0


lemma product_html_contains:
  "sublist image_url (create_product_html name price image_url qty) \<and>
   sublist name (create_product_html name price image_url qty)"
  unfolding create_product_html_def
  apply (intro conjI)
   apply (rule sublist_py_join_at [where i = 4], simp, simp only: nth_literal)
  apply (rule sublist_py_join_at [where i = 8], simp, simp only: nth_literal)
  done

lemma order_html_fields:
  "let H = create_order_html products total_qty total_price email phone shipping order_id
   in sublist order_id H \<and> sublist (concat products) H \<and> sublist email H \<and> sublist phone H \<and>
      sublist shipping H"
  unfolding create_order_html_def Let_def
  apply (intro conjI)
      apply (rule sublist_py_join_at [where i = 14], simp, simp only: nth_literal)
     apply (rule sublist_py_join_at_end [where i = 20], simp, simp only: nth_literal)
    apply (rule sublist_py_join_at [where i = 36], simp, simp only: nth_literal)
   apply (rule sublist_py_join_at [where i = 40], simp, simp only: nth_literal)
  apply (rule sublist_py_join_at [where i = 44], simp, simp only: nth_literal)
  done

lemma sublist_concat_member: "p \<in> set ps \<Longrightarrow> sublist p (concat ps)"
  by (induction ps) (auto intro: sublist_order.order.trans)

section \<open>Properties\<close>

text \<open>
  C28: the customer's confirmation ends with \<^verbatim>\<open>Contact us at $\<close> followed by
  \<^verbatim>\<open>str(SUPPORT_EMAIL)\<close>: the f-string keeps the dollar sign of the
  \<^verbatim>\<open>${...}\<close> template syntax, and an unset variable prints \<^verbatim>\<open>None\<close>.
\<close>

theorem customer_html_support_dollar:
  "sublist (''Contact us at $'' @ py_str_opt support_email @ ''</p>'')
     (create_customer_confirmation_html support_email products total_qty total_price order_id)"
  unfolding create_customer_confirmation_html_def Let_def
  apply (rule sublist_py_join_nth [where i = 39])
   apply simp
  apply (simp only: nth_literal append_Cons append_Nil)
  apply (rule sublist_order.order.refl | rule sublist_Cons_intro)+
  done

end
