(* ===== verification/Orchestrator.thy ===== *)
theory Orchestrator
  imports Schema BusinessHours OrderId AntiAbuse Templates
begin

text \<open>
  The endpoint \<^verbatim>\<open>process_order\<close> of \<^verbatim>\<open>src/lambda/Place-Order.py\<close> (lines
  406--475) with its helper \<^verbatim>\<open>send_order_emails\<close> (lines 302--382), and the FastAPI
  route that validates the body before calling it. The environment variables read at import
  (lines 28--33) are a record \<open>config\<close>; everything a request reads from the outside world
  (the client address, the clock, the random bits of \<^verbatim>\<open>uuid4\<close>, the Turnstile service,
  the DNS resolver, the SES client) is a record \<open>env\<close>. The endpoint returns its response
  with the trace of what it logged and called. A sent email is the event \<open>SesSendEmail source destination subject body\<close>, its body built by
  the templates of theory \<open>Templates\<close>.
\<close>

section \<open>Configuration, environment and responses\<close>

record config =
  business_email :: "string option"
  no_reply_email :: "string option"
  support_email :: "string option"
  cloudflare_key :: "string option"
  blocklist :: "string set"

datatype send_outcome = Sent | SendRaised string

record env =
  client_host :: "string option"
  now :: clock
  urandom :: u128
  turnstile :: turnstile_service
  resolve :: resolver
  ses :: "event \<Rightarrow> send_outcome"

datatype response =
    JSONResponse nat json
  | HTTPException nat string
  | ValidationError "verr list"

fun status_code :: "response \<Rightarrow> nat" where
  "status_code (JSONResponse s _) = s"
| "status_code (HTTPException s _) = s"
| "status_code (ValidationError _) = 422"

definition success_response :: "string \<Rightarrow> response" where
  "success_response order_id =
     JSONResponse 200 (JObj [(''success'', JBool True), (''orderId'', JStr order_id),
                             (''message'', JStr ''Order placed successfully'')])"

definition network_error :: response where
  "network_error = HTTPException 500 ''Network error. Please try again.''"

definition dispatch_error :: response where
  "dispatch_error = HTTPException 500 ''Failed to send order confirmation. Please try again.''"

definition security_error :: response where
  "security_error = HTTPException 400 ''Security check failed''"

definition email_error :: response where
  "email_error = HTTPException 400 ''Please provide a valid email address.''"

section \<open>Notification dispatch\<close>

text \<open>
  The HTML of the two emails, built before either is sent: one product entry per cart item, in
  the order of the \<^verbatim>\<open>items\<close> dictionary (lines 309--317), then the owner's notice
  (lines 320--328) and the customer's confirmation (lines 331--336).
\<close>

definition product_html_list :: "order_request \<Rightarrow> string list" where
  "product_html_list order_data =
     map (\<lambda>(item_name, item_data).
            create_product_html item_name (price item_data) (imageUrl item_data) (qty item_data))
       (items (order order_data))"

definition owner_email_html :: "order_request \<Rightarrow> string \<Rightarrow> string" where
  "owner_email_html order_data order_id =
     create_order_html (product_html_list order_data) (totalQty (order order_data))
       (totalPrice (order order_data)) (email order_data) (phone order_data) (shipping order_data) order_id"

definition customer_email_html :: "config \<Rightarrow> order_request \<Rightarrow> string \<Rightarrow> string" where
  "customer_email_html cfg order_data order_id =
     create_customer_confirmation_html (support_email cfg) (product_html_list order_data)
       (totalQty (order order_data)) (totalPrice (order order_data)) order_id"

definition owner_notice :: "config \<Rightarrow> order_request \<Rightarrow> string \<Rightarrow> event" where
  "owner_notice cfg req order_id =
     SesSendEmail (no_reply_email cfg) (business_email cfg) (''New Order Received - '' @ order_id)
       (owner_email_html req order_id)"

definition customer_notice :: "config \<Rightarrow> order_request \<Rightarrow> string \<Rightarrow> event" where
  "customer_notice cfg req order_id =
     SesSendEmail (no_reply_email cfg) (Some (py_lower (email req))) (''Order Confirmation - '' @ order_id)
       (customer_email_html cfg req order_id)"

definition send_error_msg :: "string \<Rightarrow> string" where
  "send_error_msg e = ''Error sending email: '' @ e"

definition send_order_emails ::
  "config \<Rightarrow> (event \<Rightarrow> send_outcome) \<Rightarrow> order_request \<Rightarrow> string \<Rightarrow> bool traced" where
  "send_order_emails cfg send req order_id =
     (let owner = owner_notice cfg req order_id;
          customer = customer_notice cfg req order_id
      in case send owner of
           SendRaised e \<Rightarrow> (False, [owner, Print (send_error_msg e)])
         | Sent \<Rightarrow>
             (case send customer of
                SendRaised e \<Rightarrow> (False, [owner, customer, Print (send_error_msg e)])
              | Sent \<Rightarrow> (True, [owner, customer])))"

section \<open>The order endpoint\<close>

definition honeypot_msg :: "string \<Rightarrow> string \<Rightarrow> string" where
  "honeypot_msg client_ip v = ''HONEYPOT TRIGGERED: Bot at '' @ client_ip @ '' sent '' @ [CHR 0x27] @ v @ [CHR 0x27]"

definition blocked_msg :: "string \<Rightarrow> string" where
  "blocked_msg e = ''SECURITY: Blocked invalid email domain: '' @ e"

definition none_host_msg :: string where
  "none_host_msg =
     [CHR 0x27] @ ''NoneType'' @ [CHR 0x27] @ '' object has no attribute '' @ [CHR 0x27] @ ''host'' @ [CHR 0x27]"

definition internal_error_msg :: "string \<Rightarrow> string" where
  "internal_error_msg e = ''Error processing order: '' @ e"

definition process_order :: "config \<Rightarrow> env \<Rightarrow> order_request \<Rightarrow> response traced" where
  "process_order cfg env order_request =
     (case client_host env of
        None \<Rightarrow> (network_error,
                 [Print (internal_error_msg none_host_msg)])
      | Some client_ip \<Rightarrow>
          (let (is_valid_hours, hours_error) = validate_business_hours (now env)
           in if \<not> is_valid_hours then (HTTPException 400 hours_error, [])
              else
                (let order_id = order_id_of (urandom env)
                 in if verification order_request \<noteq> []
                    then (success_response order_id,
                          [Print (honeypot_msg client_ip (verification order_request))])
                    else
                      (let (is_human, ev1) =
                             verify_turnstile_token (turnstile env) (cloudflare_key cfg) (cf_token order_request)
                       in case is_human of
                            Inl (Exn e) \<Rightarrow> (network_error, ev1 @ [Print (internal_error_msg e)])
                          | Inr h \<Rightarrow>
                              if \<not> py_truthy h then (security_error, ev1)
                              else
                                (let (real, ev2) =
                                       is_domain_real (blocklist cfg) (resolve env) (py_lower (email order_request))
                                 in if \<not> real
                                    then (email_error, ev1 @ ev2 @ [Print (blocked_msg (email order_request))])
                                    else
                                      (let (email_sent, ev3) =
                                             send_order_emails cfg (ses env) order_request order_id
                                       in if \<not> email_sent then (dispatch_error, ev1 @ ev2 @ ev3)
                                          else (success_response order_id, ev1 @ ev2 @ ev3)))))))"

definition handle :: "config \<Rightarrow> env \<Rightarrow> (string \<Rightarrow> string option) \<Rightarrow> order_request \<Rightarrow> response traced" where
  "handle cfg env email_lib body =
     (case validate_order_request email_lib body of
        Inl errs \<Rightarrow> (ValidationError errs, [])
      | Inr req \<Rightarrow> process_order cfg env req)"

section \<open>A concrete shop and request\<close>

text \<open>
  A deployment and a request the witnesses below run the endpoint on: a shop open on a
  Tuesday morning, a Turnstile service that answers \<^verbatim>\<open>{"success": true}\<close>, a resolver
  that knows \<^verbatim>\<open>gmail.com\<close>, and an SES client that accepts every message.
\<close>

definition ex_cfg :: config where
  "ex_cfg = \<lparr>business_email = Some ''orders@shop.example'', no_reply_email = Some ''no-reply@shop.example'',
     support_email = Some ''help@shop.example'', cloudflare_key = Some ''secret'',
     blocklist = {''mailinator.com''}\<rparr>"

definition ex_env :: env where
  "ex_env = \<lparr>client_host = Some ''203.0.113.7'', now = \<lparr>cday = Tuesday, chour = 10\<rparr>,
     urandom = 0x9f3c2a1b00000000000000000000beef,
     turnstile = (\<lambda>k t. HttpOk (JObj [(''success'', JBool True)])),
     resolve = (\<lambda>d r. if d = ''gmail.com'' then Inr 1 else Inl NXDOMAIN),
     ses = (\<lambda>e. Sent)\<rparr>"

definition ex_req :: order_request where
  "ex_req = \<lparr>phone = ''555-123-4567'', email = ''Jane@Gmail.com'', verification = [],
     shipping = ''1 Main St'',
     order = \<lparr>items = [(''Apples'', \<lparr>qty = 3, price = PyFloat 6 0, pricePerUnit = PyFloat 2 0, imageUrl = ''a.png''\<rparr>)],
              totalQty = 3, totalPrice = PyFloat 6 0\<rparr>,
     cf_token = ''tok''\<rparr>"

lemmas ex_defs = ex_cfg_def ex_env_def ex_req_def

section \<open>Lemmas\<close>

lemma send_order_emails_ok:
  "fst (send_order_emails cfg send req order_id) \<longleftrightarrow>
     send (owner_notice cfg req order_id) = Sent \<and> send (customer_notice cfg req order_id) = Sent"
  by (simp add: send_order_emails_def Let_def split: send_outcome.splits)

lemma process_order_fst:
  "fst (process_order cfg env req) =
     (case client_host env of
        None \<Rightarrow> network_error
      | Some ip \<Rightarrow>
          if \<not> open_at (cday (now env)) (chour (now env)) then HTTPException 400 hours_msg
          else if verification req \<noteq> [] then success_response (order_id_of (urandom env))
          else if turnstile_raises (turnstile env (cloudflare_key cfg) (cf_token req)) then network_error
          else if \<not> turnstile_pass (turnstile env (cloudflare_key cfg) (cf_token req)) then security_error
          else if \<not> domain_ok (blocklist cfg) (resolve env) (email_domain (py_lower (email req)))
          then email_error
          else if ses env (owner_notice cfg req (order_id_of (urandom env))) = Sent \<and>
                  ses env (customer_notice cfg req (order_id_of (urandom env))) = Sent
          then success_response (order_id_of (urandom env))
          else dispatch_error)"
proof (cases "client_host env")
  case None
  then show ?thesis by (simp add: process_order_def)
next
  case (Some ip)
  let ?T = "turnstile env (cloudflare_key cfg) (cf_token req)"
  let ?V = "verify_turnstile_token (turnstile env) (cloudflare_key cfg) (cf_token req)"
  consider (gate) "\<not> open_at (cday (now env)) (chour (now env)) \<or> verification req \<noteq> []"
    | (raises) "open_at (cday (now env)) (chour (now env))" "verification req = []" "turnstile_raises ?T"
    | (answered) "open_at (cday (now env)) (chour (now env))" "verification req = []" "\<not> turnstile_raises ?T"
    by blast
  then show ?thesis
  proof cases
    case gate
    with Some show ?thesis by (auto simp: process_order_def validate_business_hours_open)
  next
    case raises
    then obtain e where "fst ?V = Inl e" using verify_turnstile_token_raises by blast
    with Some raises show ?thesis
      by (cases e) (simp add: process_order_def validate_business_hours_open case_prod_unfold)
  next
    case answered
    then obtain v where v: "fst ?V = Inr v" "py_truthy v \<longleftrightarrow> turnstile_pass ?T"
      using verify_turnstile_token_value by blast
    with Some answered show ?thesis
      by (simp add: process_order_def validate_business_hours_open case_prod_unfold Let_def
          is_domain_real_ok send_order_emails_ok)
  qed
qed

lemma turnstile_pass_not_raises: "turnstile_pass ans \<Longrightarrow> \<not> turnstile_raises ans"
  by (auto simp: turnstile_pass_def turnstile_raises_def split: http_outcome.splits json.splits)

lemma status_code_responses [simp]:
  "status_code (success_response oid) = 200" "status_code network_error = 500"
  "status_code dispatch_error = 500" "status_code security_error = 400" "status_code email_error = 400"
  by (simp_all add: success_response_def network_error_def dispatch_error_def security_error_def
      email_error_def)

lemma success_response_inject [simp]: "success_response a = success_response b \<longleftrightarrow> a = b"
  by (simp add: success_response_def)

lemma process_order_status: "status_code (fst (process_order cfg env req)) \<in> {200, 400, 500}"
  by (simp add: process_order_fst split: option.splits)

lemma validate_order_request_email_rejected:
  "email_lib (email r) = None \<Longrightarrow> \<exists>errs. validate_order_request email_lib r = Inl errs"
  by (simp add: validate_order_request_def validate_email_def Let_def split: sum.splits)

lemma is_domain_real_no_ses: "filter is_ses_send (snd (is_domain_real bl res m)) = []"
  using is_domain_real_events [of bl res m] by (simp add: filter_empty_conv list_all_iff)

text \<open>
  C3: the honeypot: when the hidden \<^verbatim>\<open>verification\<close> field is filled in (and the
  client is known and the shop open), the endpoint answers with the same success response a
  real order gets, carrying a freshly generated order id, and does nothing else than log the
  bot: no Turnstile call, no DNS query and no email.
\<close>

theorem honeypot_silent_accept:
  assumes "client_host env = Some ip" "open_at (cday (now env)) (chour (now env))"
    "verification req \<noteq> []"
  shows "process_order cfg env req =
           (success_response (order_id_of (urandom env)), [Print (honeypot_msg ip (verification req))])"
  using assms by (simp add: process_order_def validate_business_hours_open)

text \<open>
  C4: a bot cannot tell the honeypot from a real order: whenever a request with the
  field left empty would be accepted with some order id, the same request with the field
  filled in gets exactly that response.
\<close>

theorem honeypot_indistinguishable:
  assumes "verification req \<noteq> []"
    and "fst (process_order cfg env (req\<lparr>verification := []\<rparr>)) = success_response oid"
  shows "fst (process_order cfg env req) = success_response oid"
proof -
  from assms(2) obtain ip where ip: "client_host env = Some ip"
    and op: "open_at (cday (now env)) (chour (now env))"
    and oid: "oid = order_id_of (urandom env)"
    by (auto simp: process_order_fst network_error_def success_response_def dispatch_error_def
        security_error_def email_error_def split: option.splits if_splits)
  with assms(1) show ?thesis by (simp add: process_order_fst)
qed

text \<open>
  C12: outside business hours every request from a known client is refused with 400 and the
  business-hours message, before any order id, call or log line.
\<close>

theorem closed_hours_rejects:
  assumes "client_host env \<noteq> None" "\<not> open_at (cday (now env)) (chour (now env))"
  shows "process_order cfg env req = (HTTPException 400 hours_msg, [])"
  using assms by (auto simp: process_order_def validate_business_hours_open)


text \<open>
  C1: the endpoint answers 200 exactly when the client is known, the shop is open, and
  either the honeypot caught a bot or the Turnstile answer passes, the email domain is real and
  both the owner's and the customer's email are sent.
\<close>

theorem process_order_accepts_iff:
  "status_code (fst (process_order cfg env req)) = 200 \<longleftrightarrow>
     client_host env \<noteq> None \<and> open_at (cday (now env)) (chour (now env)) \<and>
     (verification req \<noteq> [] \<or>
      (turnstile_pass (turnstile env (cloudflare_key cfg) (cf_token req)) \<and>
       domain_ok (blocklist cfg) (resolve env) (email_domain (py_lower (email req))) \<and>
       ses env (owner_notice cfg req (order_id_of (urandom env))) = Sent \<and>
       ses env (customer_notice cfg req (order_id_of (urandom env))) = Sent))"
  by (auto simp: process_order_fst turnstile_pass_not_raises split: option.splits)

text \<open>
  C5: a genuine accepted order sends exactly two emails, the order notice to the
  business address first and then the confirmation to the customer's lower-cased address,
  both with the order id of the response.
\<close>

theorem accepted_sends_owner_then_customer:
  assumes "verification req = []" "status_code (fst (process_order cfg env req)) = 200"
  shows "filter is_ses_send (snd (process_order cfg env req)) =
           [owner_notice cfg req (order_id_of (urandom env)), customer_notice cfg req (order_id_of (urandom env))]"
proof -
  let ?T = "turnstile env (cloudflare_key cfg) (cf_token req)"
  let ?V = "verify_turnstile_token (turnstile env) (cloudflare_key cfg) (cf_token req)"
  from assms have c: "client_host env \<noteq> None" "open_at (cday (now env)) (chour (now env))"
    "turnstile_pass ?T" "domain_ok (blocklist cfg) (resolve env) (email_domain (py_lower (email req)))"
    "ses env (owner_notice cfg req (order_id_of (urandom env))) = Sent"
    "ses env (customer_notice cfg req (order_id_of (urandom env))) = Sent"
    by (auto simp: process_order_fst turnstile_pass_not_raises split: option.splits if_splits)
  then obtain v where v: "fst ?V = Inr v" "py_truthy v"
    using verify_turnstile_token_value turnstile_pass_not_raises by blast
  have "filter is_ses_send (snd ?V) = []"
    by (simp add: verify_turnstile_token_events is_ses_send_def)
  with assms(1) c v show ?thesis
    by (auto simp: process_order_def validate_business_hours_open case_prod_unfold Let_def
        is_domain_real_ok is_domain_real_no_ses send_order_emails_def owner_notice_def
        customer_notice_def is_ses_send_def)
qed

text \<open>
  C9: the owner's notice of an order shows the order id, the customer's email address, phone
  and shipping text, and the name and image URL of every item in the cart, each verbatim: the
  owner sees what the customer typed, markup included, since nothing is escaped.
\<close>

theorem owner_email_shows_order:
  "let H = owner_email_html req order_id
   in sublist order_id H \<and> sublist (email req) H \<and> sublist (phone req) H \<and> sublist (shipping req) H \<and>
      (\<forall>(n, it) \<in> set (items (order req)). sublist n H \<and> sublist (imageUrl it) H)"
proof -
  let ?H = "owner_email_html req order_id"
  have F: "sublist order_id ?H" "sublist (concat (product_html_list req)) ?H" "sublist (email req) ?H"
    "sublist (phone req) ?H" "sublist (shipping req) ?H"
    using order_html_fields [of "product_html_list req" "totalQty (order req)" "totalPrice (order req)"
        "email req" "phone req" "shipping req" order_id]
    by (simp_all add: owner_email_html_def Let_def)
  have "sublist n ?H \<and> sublist (imageUrl it) ?H" if "(n, it) \<in> set (items (order req))" for n it
  proof -
    have "create_product_html n (price it) (imageUrl it) (qty it) \<in> set (product_html_list req)"
      using that by (force simp: product_html_list_def)
    then have "sublist (create_product_html n (price it) (imageUrl it) (qty it)) ?H"
      using F(2) sublist_concat_member sublist_order.order.trans by blast
    with product_html_contains show ?thesis by (blast intro: sublist_order.order.trans)
  qed
  with F show ?thesis by (auto simp: Let_def)
qed

text \<open>
  C22: an exception while verifying the Turnstile token (a network failure or a body
  that is not a JSON object) gives 500 "Network error", not the 400 the spec gives a failed
  verification.
\<close>

theorem turnstile_error_500:
  assumes "client_host env \<noteq> None" "open_at (cday (now env)) (chour (now env))"
    "verification req = []" "turnstile_raises (turnstile env (cloudflare_key cfg) (cf_token req))"
  shows "fst (process_order cfg env req) = network_error"
  using assms by (auto simp: process_order_fst)

text \<open>
  C13: when sending the owner's notification raises, the endpoint answers 500 and the
  customer's confirmation is never sent.
\<close>

theorem dispatch_failure_500:
  assumes "client_host env \<noteq> None" "open_at (cday (now env)) (chour (now env))"
    "verification req = []" "turnstile_pass (turnstile env (cloudflare_key cfg) (cf_token req))"
    "domain_ok (blocklist cfg) (resolve env) (email_domain (py_lower (email req)))"
    "ses env (owner_notice cfg req (order_id_of (urandom env))) = SendRaised e"
  shows "fst (process_order cfg env req) = dispatch_error \<and>
         customer_notice cfg req (order_id_of (urandom env)) \<notin> set (snd (process_order cfg env req))"
proof -
  let ?V = "verify_turnstile_token (turnstile env) (cloudflare_key cfg) (cf_token req)"
  obtain v where v: "fst ?V = Inr v" "py_truthy v"
    using verify_turnstile_token_value turnstile_pass_not_raises assms(4) by blast
  have "customer_notice cfg req (order_id_of (urandom env)) \<notin> set (snd ?V)"
    by (simp add: verify_turnstile_token_events customer_notice_def)
  moreover have "customer_notice cfg req oid \<notin> set (snd (is_domain_real bl res m))" for bl res m oid
    using is_domain_real_no_ses [of bl res m] by (auto simp: customer_notice_def is_ses_send_def filter_empty_conv)
  ultimately show ?thesis
    using assms v
    by (auto simp: process_order_def validate_business_hours_open case_prod_unfold Let_def
        is_domain_real_ok send_order_emails_def customer_notice_def owner_notice_def)
qed

text \<open>
  C23: a request whose client address is unknown fails with 500 "Network error" before
  any gate, even outside business hours: \<^verbatim>\<open>request.client.host\<close> raises inside the
  \<^verbatim>\<open>try\<close>.
\<close>

theorem missing_client_500:
  "client_host env = None \<Longrightarrow>
     process_order cfg env req = (network_error, [Print (internal_error_msg none_host_msg)])"
  by (simp add: process_order_def)

text \<open>
  C14: through FastAPI every request is answered 200, 400, 422 or 500; 422 exactly when the
  body fails validation, and then nothing is called or logged.
\<close>

theorem handle_422_iff:
  "status_code (fst (handle cfg env email_lib body)) \<in> {200, 400, 422, 500} \<and>
   (status_code (fst (handle cfg env email_lib body)) = 422 \<longleftrightarrow>
      (\<exists>errs. validate_order_request email_lib body = Inl errs)) \<and>
   ((\<exists>errs. validate_order_request email_lib body = Inl errs) \<longrightarrow> snd (handle cfg env email_lib body) = [])"
proof (cases "validate_order_request email_lib body")
  case (Inr req)
  with process_order_status [of cfg env req] show ?thesis by (auto simp: handle_def)
qed (simp add: handle_def)

section \<open>Witnesses\<close>

lemma ex_accepted: "fst (process_order ex_cfg ex_env ex_req) = success_response (order_id_of (urandom ex_env))"
  by (simp add: process_order_fst ex_defs open_at_def turnstile_pass_def turnstile_raises_def
      domain_ok_def email_domain_def py_simps)

theorem honeypot_silent_accept_witness:
  "process_order ex_cfg ex_env (ex_req\<lparr>verification := ''bot''\<rparr>) =
     (success_response (order_id_of (urandom ex_env)), [Print (honeypot_msg ''203.0.113.7'' ''bot'')])"
  using honeypot_silent_accept [of ex_env "''203.0.113.7''" "ex_req\<lparr>verification := ''bot''\<rparr>" ex_cfg]
  by (simp add: ex_defs open_at_def)

theorem honeypot_indistinguishable_witness:
  "fst (process_order ex_cfg ex_env (ex_req\<lparr>verification := ''bot''\<rparr>)) =
     success_response (order_id_of (urandom ex_env))"
proof -
  have "fst (process_order ex_cfg ex_env ((ex_req\<lparr>verification := ''bot''\<rparr>)\<lparr>verification := []\<rparr>)) =
      success_response (order_id_of (urandom ex_env))"
    using ex_accepted by (simp add: ex_req_def)
  then show ?thesis
    using honeypot_indistinguishable [of "ex_req\<lparr>verification := ''bot''\<rparr>" ex_cfg ex_env] by simp
qed

theorem closed_hours_rejects_witness:
  "process_order ex_cfg (ex_env\<lparr>now := \<lparr>cday = Sunday, chour = 10\<rparr>\<rparr>) ex_req = (HTTPException 400 hours_msg, [])"
  using closed_hours_rejects [of "ex_env\<lparr>now := \<lparr>cday = Sunday, chour = 10\<rparr>\<rparr>" ex_cfg ex_req]
  by (simp add: ex_env_def open_at_def)

theorem accepted_sends_owner_then_customer_witness:
  "filter is_ses_send (snd (process_order ex_cfg ex_env ex_req)) =
     [SesSendEmail (Some ''no-reply@shop.example'') (Some ''orders@shop.example'')
        (''New Order Received - '' @ order_id_of (urandom ex_env)) (owner_email_html ex_req (order_id_of (urandom ex_env))),
      SesSendEmail (Some ''no-reply@shop.example'') (Some ''jane@gmail.com'')
        (''Order Confirmation - '' @ order_id_of (urandom ex_env)) (customer_email_html ex_cfg ex_req (order_id_of (urandom ex_env)))]"
  using accepted_sends_owner_then_customer [of ex_req ex_cfg ex_env] ex_accepted
  by (simp add: owner_notice_def customer_notice_def ex_defs py_simps)

theorem turnstile_error_500_witness:
  "fst (process_order ex_cfg (ex_env\<lparr>turnstile := (\<lambda>k t. HttpRaises ''ReadTimeout'')\<rparr>) ex_req) =
     network_error"
  using turnstile_error_500 [of "ex_env\<lparr>turnstile := (\<lambda>k t. HttpRaises ''ReadTimeout'')\<rparr>" ex_req ex_cfg]
  by (simp add: ex_defs open_at_def turnstile_raises_def)

theorem dispatch_failure_500_witness:
  "fst (process_order ex_cfg (ex_env\<lparr>ses := (\<lambda>e. SendRaised ''Throttling'')\<rparr>) ex_req) = dispatch_error \<and>
   customer_notice ex_cfg ex_req (order_id_of (urandom ex_env)) \<notin>
     set (snd (process_order ex_cfg (ex_env\<lparr>ses := (\<lambda>e. SendRaised ''Throttling'')\<rparr>) ex_req))"
  using dispatch_failure_500 [of "ex_env\<lparr>ses := (\<lambda>e. SendRaised ''Throttling'')\<rparr>" ex_req ex_cfg "''Throttling''"]
  by (simp add: ex_defs open_at_def turnstile_pass_def domain_ok_def email_domain_def py_simps)

theorem missing_client_500_witness:
  "process_order ex_cfg (ex_env\<lparr>client_host := None, now := \<lparr>cday = Sunday, chour = 3\<rparr>\<rparr>) ex_req =
     (network_error, [Print (internal_error_msg none_host_msg)])"
  using missing_client_500 [of "ex_env\<lparr>client_host := None, now := \<lparr>cday = Sunday, chour = 3\<rparr>\<rparr>" ex_cfg ex_req]
  by simp

theorem handle_422_iff_witness:
  "status_code (fst (handle ex_cfg ex_env (\<lambda>s. None) ex_req)) = 422 \<and>
   snd (handle ex_cfg ex_env (\<lambda>s. None) ex_req) = []"
  using handle_422_iff [of ex_cfg ex_env "\<lambda>s. None" ex_req]
    validate_order_request_email_rejected [of "\<lambda>s. None" ex_req]
  by simp

theorem process_order_accepts_iff_witness:
  "status_code (fst (process_order ex_cfg ex_env ex_req)) = 200 \<and>
   turnstile_pass (turnstile ex_env (cloudflare_key ex_cfg) (cf_token ex_req)) \<and>
   domain_ok (blocklist ex_cfg) (resolve ex_env) (email_domain (py_lower (email ex_req)))"
  using process_order_accepts_iff [of ex_cfg ex_env ex_req] ex_accepted
  by (simp add: ex_req_def)

theorem owner_email_shows_order_witness:
  "sublist ''Apples'' (owner_email_html ex_req (order_id_of (urandom ex_env))) \<and>
   sublist ''1 Main St'' (owner_email_html ex_req (order_id_of (urandom ex_env)))"
  using owner_email_shows_order [of ex_req "order_id_of (urandom ex_env)"] by (simp add: ex_req_def Let_def)

end
