(* ===== verification/OrderFlow.thy ===== *)
theory OrderFlow
  imports Orchestrator
begin

text \<open>
  The order lifecycle of the spec (section 5) as a small-step machine. A configuration is a
  stage of the lifecycle with the trace so far; each rule is one gate of
  \<^verbatim>\<open>process_order\<close> (src/lambda/Place-Order.py, lines 406--475), taken in the order the
  code takes them, and either moves the order to the next stage or ends the request with its
  response. The machine refines the functional model: running it from \<open>Received\<close> ends in
  exactly the response and trace \<^const>\<open>process_order\<close> computes.
\<close>

section \<open>Stages and steps\<close>

datatype stage =
    Received
  | ClientKnown string
  | HoursChecked string string
  | HoneypotEvaluated string
  | VerificationChecked string
  | DomainChecked string
  | NotificationDispatched string
  | Responded response

type_synonym conf = "stage \<times> event list"

inductive order_step :: "config \<Rightarrow> env \<Rightarrow> order_request \<Rightarrow> conf \<Rightarrow> conf \<Rightarrow> bool"
  for cfg :: config and env :: env and req :: order_request where
  no_client:
    "client_host env = None \<Longrightarrow>
     order_step cfg env req (Received, tr)
       (Responded network_error, tr @ [Print (internal_error_msg none_host_msg)])"
| client_known:
    "client_host env = Some ip \<Longrightarrow> order_step cfg env req (Received, tr) (ClientKnown ip, tr)"
| hours_closed:
    "validate_business_hours (now env) = (False, msg) \<Longrightarrow>
     order_step cfg env req (ClientKnown ip, tr) (Responded (HTTPException 400 msg), tr)"
| hours_open:
    "validate_business_hours (now env) = (True, msg) \<Longrightarrow>
     order_step cfg env req (ClientKnown ip, tr) (HoursChecked ip (order_id_of (urandom env)), tr)"
| honeypot_bot:
    "verification req \<noteq> [] \<Longrightarrow>
     order_step cfg env req (HoursChecked ip oid, tr)
       (Responded (success_response oid), tr @ [Print (honeypot_msg ip (verification req))])"
| honeypot_human:
    "verification req = [] \<Longrightarrow> order_step cfg env req (HoursChecked ip oid, tr) (HoneypotEvaluated oid, tr)"
| verify_raised:
    "verify_turnstile_token (turnstile env) (cloudflare_key cfg) (cf_token req) = (Inl (Exn e), ev) \<Longrightarrow>
     order_step cfg env req (HoneypotEvaluated oid, tr)
       (Responded network_error, tr @ ev @ [Print (internal_error_msg e)])"
| verify_rejected:
    "verify_turnstile_token (turnstile env) (cloudflare_key cfg) (cf_token req) = (Inr h, ev) \<Longrightarrow>
     \<not> py_truthy h \<Longrightarrow>
     order_step cfg env req (HoneypotEvaluated oid, tr) (Responded security_error, tr @ ev)"
| verify_passed:
    "verify_turnstile_token (turnstile env) (cloudflare_key cfg) (cf_token req) = (Inr h, ev) \<Longrightarrow>
     py_truthy h \<Longrightarrow>
     order_step cfg env req (HoneypotEvaluated oid, tr) (VerificationChecked oid, tr @ ev)"
| domain_rejected:
    "is_domain_real (blocklist cfg) (resolve env) (py_lower (email req)) = (False, ev) \<Longrightarrow>
     order_step cfg env req (VerificationChecked oid, tr)
       (Responded email_error, tr @ ev @ [Print (blocked_msg (email req))])"
| domain_passed:
    "is_domain_real (blocklist cfg) (resolve env) (py_lower (email req)) = (True, ev) \<Longrightarrow>
     order_step cfg env req (VerificationChecked oid, tr) (DomainChecked oid, tr @ ev)"
| dispatch_failed:
    "send_order_emails cfg (ses env) req oid = (False, ev) \<Longrightarrow>
     order_step cfg env req (DomainChecked oid, tr) (Responded dispatch_error, tr @ ev)"
| dispatched:
    "send_order_emails cfg (ses env) req oid = (True, ev) \<Longrightarrow>
     order_step cfg env req (DomainChecked oid, tr) (NotificationDispatched oid, tr @ ev)"
| accepted:
    "order_step cfg env req (NotificationDispatched oid, tr) (Responded (success_response oid), tr)"

text \<open>How many gates a stage has still to pass: every step lowers it.\<close>

fun rank :: "stage \<Rightarrow> nat" where
  "rank Received = 7"
| "rank (ClientKnown _) = 6"
| "rank (HoursChecked _ _) = 5"
| "rank (HoneypotEvaluated _) = 4"
| "rank (VerificationChecked _) = 3"
| "rank (DomainChecked _) = 2"
| "rank (NotificationDispatched _) = 1"
| "rank (Responded _) = 0"

fun is_final :: "stage \<Rightarrow> bool" where
  "is_final (Responded _) = True"
| "is_final _ = False"

text \<open>
  What a configuration of a run from \<open>Received\<close> knows: each stage records the gates passed
  to reach it, and an email appears in the trace only once every gate before the dispatch has
  passed.
\<close>

definition gates_passed :: "config \<Rightarrow> env \<Rightarrow> order_request \<Rightarrow> bool" where
  "gates_passed cfg env req =
     (client_host env \<noteq> None \<and> open_at (cday (now env)) (chour (now env)) \<and> verification req = [] \<and>
      turnstile_pass (turnstile env (cloudflare_key cfg) (cf_token req)) \<and>
      domain_ok (blocklist cfg) (resolve env) (email_domain (py_lower (email req))))"

fun stage_inv :: "config \<Rightarrow> env \<Rightarrow> order_request \<Rightarrow> stage \<Rightarrow> bool" where
  "stage_inv cfg env req Received = True"
| "stage_inv cfg env req (ClientKnown ip) = (client_host env = Some ip)"
| "stage_inv cfg env req (HoursChecked ip oid) =
     (client_host env = Some ip \<and> open_at (cday (now env)) (chour (now env)) \<and> oid = order_id_of (urandom env))"
| "stage_inv cfg env req (HoneypotEvaluated oid) =
     (client_host env \<noteq> None \<and> open_at (cday (now env)) (chour (now env)) \<and> oid = order_id_of (urandom env) \<and>
      verification req = [])"
| "stage_inv cfg env req (VerificationChecked oid) =
     (client_host env \<noteq> None \<and> open_at (cday (now env)) (chour (now env)) \<and> oid = order_id_of (urandom env) \<and>
      verification req = [] \<and> turnstile_pass (turnstile env (cloudflare_key cfg) (cf_token req)))"
| "stage_inv cfg env req (DomainChecked oid) = (gates_passed cfg env req \<and> oid = order_id_of (urandom env))"
| "stage_inv cfg env req (NotificationDispatched oid) =
     (gates_passed cfg env req \<and> oid = order_id_of (urandom env) \<and>
      ses env (owner_notice cfg req oid) = Sent \<and> ses env (customer_notice cfg req oid) = Sent)"
| "stage_inv cfg env req (Responded r) = True"

definition flow_inv :: "config \<Rightarrow> env \<Rightarrow> order_request \<Rightarrow> conf \<Rightarrow> bool" where
  "flow_inv cfg env req c =
     (stage_inv cfg env req (fst c) \<and> (list_ex is_ses_send (snd c) \<longrightarrow> gates_passed cfg env req))"

inductive_cases order_step_ReceivedE: "order_step cfg env req (Received, tr) c"
inductive_cases order_step_ClientKnownE: "order_step cfg env req (ClientKnown ip, tr) c"
inductive_cases order_step_HoursCheckedE: "order_step cfg env req (HoursChecked ip oid, tr) c"
inductive_cases order_step_HoneypotEvaluatedE: "order_step cfg env req (HoneypotEvaluated oid, tr) c"
inductive_cases order_step_VerificationCheckedE: "order_step cfg env req (VerificationChecked oid, tr) c"
inductive_cases order_step_DomainCheckedE: "order_step cfg env req (DomainChecked oid, tr) c"
inductive_cases order_step_NotificationDispatchedE:
  "order_step cfg env req (NotificationDispatched oid, tr) c"
inductive_cases order_step_RespondedE: "order_step cfg env req (Responded r, tr) c"

lemmas order_step_elims = order_step_ReceivedE order_step_ClientKnownE order_step_HoursCheckedE
  order_step_HoneypotEvaluatedE order_step_VerificationCheckedE order_step_DomainCheckedE
  order_step_NotificationDispatchedE order_step_RespondedE

section \<open>Lemmas\<close>

lemma order_step_rank: "order_step cfg env req (s, tr) (s', tr') \<Longrightarrow> rank s' < rank s"
  by (induction "(s, tr)" "(s', tr')" rule: order_step.induct) auto

lemma order_step_trace_prefix: "order_step cfg env req (s, tr) (s', tr') \<Longrightarrow> \<exists>ev. tr' = tr @ ev"
  by (induction "(s, tr)" "(s', tr')" rule: order_step.induct) auto

lemma order_step_relpowp_bound: "(order_step cfg env req ^^ n) c c' \<Longrightarrow> n \<le> rank (fst c)"
  using relpowp_rank_bound [of "order_step cfg env req" "rank \<circ> fst" n c c'] order_step_rank
  by (metis comp_apply prod.collapse)

lemma order_step_deterministic:
  "order_step cfg env req c c1 \<Longrightarrow> order_step cfg env req c c2 \<Longrightarrow> c1 = c2"
  by (induction rule: order_step.induct) (auto elim: order_step_elims)

lemma order_step_Responded: "\<not> order_step cfg env req (Responded r, tr) c"
  by (auto elim: order_step_RespondedE)

lemma order_step_progress: "\<not> is_final s \<Longrightarrow> \<exists>c. order_step cfg env req (s, tr) c"
proof (cases s)
  case Received
  then show ?thesis by (cases "client_host env") (auto intro: order_step.intros)
next
  case (ClientKnown ip)
  then show ?thesis by (cases "validate_business_hours (now env)") (metis (full_types) order_step.intros(3,4))
next
  case (HoursChecked ip oid)
  then show ?thesis by (cases "verification req = []") (auto intro: order_step.intros)
next
  case (HoneypotEvaluated oid)
  obtain V ev where V: "verify_turnstile_token (turnstile env) (cloudflare_key cfg) (cf_token req) = (V, ev)"
    by fastforce
  show ?thesis
  proof (cases V)
    case (Inl x)
    with V HoneypotEvaluated show ?thesis by (cases x) (auto intro: order_step.intros)
  next
    case (Inr h)
    with V HoneypotEvaluated show ?thesis by (cases "py_truthy h") (auto intro: order_step.intros)
  qed
next
  case (VerificationChecked oid)
  then show ?thesis
    by (cases "is_domain_real (blocklist cfg) (resolve env) (py_lower (email req))") (metis (full_types) order_step.intros(10,11))
next
  case (DomainChecked oid)
  then show ?thesis
    by (cases "send_order_emails cfg (ses env) req oid") (metis (full_types) order_step.intros(12,13))
qed (auto intro: order_step.intros)

lemma order_flow_reaches:
  "(order_step cfg env req)\<^sup>*\<^sup>* (Received, [])
     (Responded (fst (process_order cfg env req)), snd (process_order cfg env req))"
proof -
  obtain ok msg where H: "validate_business_hours (now env) = (ok, msg)" by fastforce
  obtain V ev1 where V: "verify_turnstile_token (turnstile env) (cloudflare_key cfg) (cf_token req) = (V, ev1)"
    by fastforce
  obtain real ev2 where D: "is_domain_real (blocklist cfg) (resolve env) (py_lower (email req)) = (real, ev2)"
    by fastforce
  obtain sent ev3 where S: "send_order_emails cfg (ses env) req (order_id_of (urandom env)) = (sent, ev3)"
    by fastforce
  show ?thesis
  proof (cases "client_host env")
    case None
    then show ?thesis
      using order_step.no_client [of env cfg req "[]"] by (simp add: process_order_def r_into_rtranclp)
  next
    case (Some ip)
    show ?thesis
      using Some H V D S
      apply (cases ok)
      apply (simp_all add: process_order_def Let_def split: sum.splits exn.splits)
      apply (intro conjI impI allI; simp?)
      apply ((rule converse_rtranclp_into_rtranclp, (rule order_step.intros; (simp; fail)))+, rule rtranclp_eq_refl, simp)+
      done
  qed
qed

lemma order_flow_run_result:
  assumes run: "(order_step cfg env req)\<^sup>*\<^sup>* (Received, []) (Responded r, tr)"
  shows "process_order cfg env req = (r, tr)"
proof -
  have "(Responded r, tr) = (Responded (fst (process_order cfg env req)), snd (process_order cfg env req))"
  proof (rule deterministic_final_unique [of "order_step cfg env req"])
    show "order_step cfg env req x y \<Longrightarrow> order_step cfg env req x z \<Longrightarrow> y = z" for x y z
      by (rule order_step_deterministic)
  qed (use run order_flow_reaches order_step_Responded in blast)+
  then show ?thesis by (simp add: prod_eq_iff)
qed

lemma verify_passed_pass:
  "fst (verify_turnstile_token post key token) = Inr h \<Longrightarrow> py_truthy h \<Longrightarrow> turnstile_pass (post key token)"
  using verify_turnstile_token_raises [of post key token] verify_turnstile_token_value [of post key token]
  by auto

lemma no_ses_verify: "\<not> list_ex is_ses_send (snd (verify_turnstile_token post key token))"
  by (simp add: verify_turnstile_token_events is_ses_send_def)

lemma no_ses_domain: "\<not> list_ex is_ses_send (snd (is_domain_real bl res m))"
  using is_domain_real_events [of bl res m] by (simp add: list_ex_iff list_all_iff)

lemma flow_inv_step:
  assumes "order_step cfg env req c c'" "flow_inv cfg env req c"
  shows "flow_inv cfg env req c'"
  using assms
proof (induction rule: order_step.induct)
  case (hours_open msg ip tr)
  then show ?case by (simp add: flow_inv_def validate_business_hours_open split: if_splits)
next
  case (verify_passed h ev oid tr)
  then have "turnstile_pass (turnstile env (cloudflare_key cfg) (cf_token req))" "\<not> list_ex is_ses_send ev"
    using verify_passed_pass [of "turnstile env"] no_ses_verify [of "turnstile env"] by (metis fst_conv snd_conv)+
  with verify_passed.prems show ?case by (simp add: flow_inv_def)
next
  case (domain_passed ev oid tr)
  then have "domain_ok (blocklist cfg) (resolve env) (email_domain (py_lower (email req)))" "\<not> list_ex is_ses_send ev"
    using is_domain_real_ok [of "blocklist cfg" "resolve env"] no_ses_domain [of "blocklist cfg" "resolve env"]
    by (metis fst_conv snd_conv)+
  with domain_passed.prems show ?case by (simp add: flow_inv_def gates_passed_def)
next
  case (verify_raised e ev oid tr)
  then have "\<not> list_ex is_ses_send ev" using no_ses_verify [of "turnstile env"] by (metis snd_conv)
  with verify_raised.prems show ?case by (simp add: flow_inv_def is_ses_send_def)
next
  case (verify_rejected h ev oid tr)
  then have "\<not> list_ex is_ses_send ev" using no_ses_verify [of "turnstile env"] by (metis snd_conv)
  with verify_rejected.prems show ?case by (simp add: flow_inv_def)
next
  case (domain_rejected ev oid tr)
  then have "\<not> list_ex is_ses_send ev" using no_ses_domain [of "blocklist cfg" "resolve env"] by (metis snd_conv)
  with domain_rejected.prems show ?case by (simp add: flow_inv_def is_ses_send_def)
next
  case (dispatched oid ev tr)
  then show ?case using send_order_emails_ok [of cfg "ses env" req oid] by (simp add: flow_inv_def)
qed (auto simp: flow_inv_def is_ses_send_def)

text \<open>
  C2: the lifecycle invariant: every configuration a run from \<open>Received\<close> reaches has passed
  the gates its stage records (a known client, open hours, an empty honeypot, a passing
  Turnstile answer, a real domain, both sends), and its trace holds an email only if every gate
  before the dispatch passed.
\<close>

theorem order_flow_invariant:
  "(order_step cfg env req)\<^sup>*\<^sup>* (Received, []) c \<Longrightarrow> flow_inv cfg env req c"
proof (induction rule: rtranclp_induct)
  case base
  then show ?case by (simp add: flow_inv_def)
next
  case (step c c')
  from step.hyps(2) step.IH show ?case by (rule flow_inv_step)
qed

section \<open>Witnesses\<close>

theorem order_flow_invariant_witness:
  "flow_inv ex_cfg ex_env ex_req (ClientKnown ''203.0.113.7'', [])"
  using order_flow_invariant [of ex_cfg ex_env ex_req "(ClientKnown ''203.0.113.7'', [])"]
    order_step.client_known [of ex_env "''203.0.113.7''" ex_cfg ex_req "[]"]
  by (simp add: ex_env_def r_into_rtranclp)

end
