(* ===== verification/Spec2Isabelle.thy ===== *)
theory Spec2Isabelle
  imports OrderFlow
begin

text \<open>
  \<^bold>\<open>A verification development for the order endpoint of Secure-SES-Order-Flow.\<close>

  The program is one AWS Lambda function, \<^verbatim>\<open>src/lambda/Place-Order.py\<close>: a FastAPI route
  \<^verbatim>\<open>POST /order\<close> that validates an order with pydantic models, checks the business hours,
  generates an order id, catches bots with a honeypot field and a Cloudflare Turnstile check,
  rejects disposable or non-existent email domains, and sends two emails through AWS SES.
  The development models each part as a group of executable HOL definitions, in the order the
  code has them, and composes them the way \<^verbatim>\<open>process_order\<close> does.

  \<^bold>\<open>Theories and what they model.\<close>
  \<^item> \<open>Prelude\<close>: the Python runtime the code relies on (\<^verbatim>\<open>str.lower/upper/split\<close>,
    \<^verbatim>\<open>xs[-1]\<close>, decoded JSON with Python truthiness and \<^verbatim>\<open>dict.get\<close>), the events a
    request causes (log lines, DNS queries, the Turnstile POST, SES sends) and generic lemmas on
    deterministic relations.
  \<^item> \<open>PyFloat\<close>: Python's \<^verbatim>\<open>float\<close> as far as the prices need it: a finite binary64
    number \<open>PyFloat m e\<close> (the value \<open>m * 2^e\<close>), addition, subtraction and \<^verbatim>\<open>abs\<close>
    rounded to 53 bits with ties to even, exact comparisons, \<^verbatim>\<open>sum\<close> and the literal
    \<^verbatim>\<open>0.01\<close>.
  \<^item> \<open>Regex\<close>: \<^verbatim>\<open>PHONE_PATTERN\<close> (line 39) as a value of a regular-expression datatype over
    code points, Python's backtracking \<^verbatim>\<open>re.match\<close> as the executable function \<open>rem\<close> (the
    remainders a match can leave), proved equal to an inductive semantics \<open>matches\<close>; the
    UTF-8 decoding of a string into the code points the engine sees (\<open>utf8_decode\<close>) and
    \<^verbatim>\<open>\d\<close> as the Unicode category Nd (\<open>nd_ranges\<close>).
  \<^item> \<open>Schema\<close>: the pydantic models \<^verbatim>\<open>CartItem\<close>, \<^verbatim>\<open>Cart\<close>, \<^verbatim>\<open>OrderRequest\<close>
    (lines 45--98) as records with float prices, and pydantic v1 validation as functions
    returning the list of errors or the validated value: each field runs its \<^verbatim>\<open>Field\<close>
    constraint, then its validators in declaration order, stopping at the first failure;
    errors accumulate across fields; a validator sees \<^verbatim>\<open>values['items']\<close> only if
    \<^verbatim>\<open>items\<close> passed.
  \<^item> \<open>BusinessHours\<close>: \<^verbatim>\<open>validate_business_hours\<close> (lines 105--125) on a clock record.
  \<^item> \<open>OrderId\<close>: \<^verbatim>\<open>str(uuid.uuid4())[:8].upper()\<close> (line 421): the uuid4 version and
    variant masks on a \<open>128 word\<close>, the hex formatting of \<^verbatim>\<open>UUID.__str__\<close>, truncation.
  \<^item> \<open>AntiAbuse\<close>: \<^verbatim>\<open>is_domain_real\<close> (lines 276--299) against a resolver parameter and
    \<^verbatim>\<open>verify_turnstile_token\<close> (lines 387--398) against a service parameter, with the
    \<^verbatim>\<open>AttributeError\<close> message of \<^verbatim>\<open>.get\<close> on a body that is not an object.
  \<^item> \<open>Templates\<close>: the three HTML template functions (lines 131--269), each f-string
    transcribed line by line, with Python's \<^verbatim>\<open>str\<close> of an integer, the \<^verbatim>\<open>.2f\<close>
    format of a float and \<^verbatim>\<open>str\<close> of an unset environment variable.
  \<^item> \<open>Orchestrator\<close>: \<^verbatim>\<open>send_order_emails\<close> (lines 302--382) with both HTML bodies, \<^verbatim>\<open>process_order\<close>
    (lines 406--475) with every branch and the \<^verbatim>\<open>try/except\<close> that maps exceptions to
    responses, and \<open>handle\<close>, the route as FastAPI runs it (validation first, 422 on failure).
    Configuration read at import is the record \<open>config\<close>; everything a request reads from the
    outside world is the record \<open>env\<close>.
  \<^item> \<open>OrderFlow\<close>: the spec's order lifecycle as an inductive step relation
    \<open>order_step\<close>, one gate of \<^verbatim>\<open>process_order\<close> per step, with its invariant
    \<open>flow_inv\<close>.

  \<^bold>\<open>What is proved.\<close> The endpoint answers 200 exactly when its gates pass; the honeypot
  path returns the genuine success response and calls nothing, so a bot cannot tell it from an
  accepted order; an accepted order sends the owner's email and then the customer's; through
  FastAPI every request gets one response among 200, 400, 422 and 500; every configuration
  the lifecycle machine reaches satisfies its invariant, so no email is sent before every gate
  has passed. The owner's email shows the order and the customer's details verbatim
  (unescaped); the customer's footer prints a stray dollar sign before the support address.
  Validation accepts exactly the requests satisfying the data-model invariants, with the
  price tolerance decided in binary64 as Python decides it, and reports the mismatch,
  minimum-order and constraint errors of every field; \<^verbatim>\<open>PHONE_PATTERN\<close> accepts the intended
  formats and exactly 10 or 11 Unicode digits; the hours gate is open exactly Monday to
  Saturday, 08:00 to 20:00; the order id is 8 upper-case hex digits that decode to the top 32
  random bits; the domain check fails closed. Where the code departs from the spec (422
  instead of 400, accumulated errors, 500 on a Turnstile exception, a masked quantity mismatch,
  a one-cent cart rejected by float rounding, non-ASCII digits and the range \<^verbatim>\<open>[ -.]\<close> in
  the pattern) a theorem states what the code does for every input of that kind.

  \<^bold>\<open>Choices.\<close> No loop of the program can run forever: the recursion of the model is
  structural, or has a measure (the regex matcher, the UTF-8 decoder), so no fuel is needed.
  Prices are finite doubles: NaN and infinities cannot come from a JSON price that pydantic
  accepts with \<^verbatim>\<open>ge=0\<close>, except by overflow far beyond any cart, and negative zero prints
  as \<^verbatim>\<open>0.00\<close> here but \<^verbatim>\<open>-0.00\<close> in Python. Strings are the UTF-8 bytes of the
  Python \<^verbatim>\<open>str\<close>; the regex runs on their code points; \<^verbatim>\<open>str.lower\<close> maps ASCII letters
  only; the one emoji of the templates is its UTF-8 bytes, as SES is sent it.

  \<^bold>\<open>Not modelled.\<close> FastAPI, Mangum, boto3, httpx,
  dnspython, pytz, email_validator and the disposable-domain list are libraries the code
  calls: each is a parameter (the SES outcome, the Turnstile answer, the resolver, the clock,
  the email checker, the blocklist), so every theorem holds for every behaviour of them.
  JSON decoding and pydantic's type coercion happen before the modelled values exist.
  Concurrency is not modelled: no request changes state another can see (the module globals
  are read-only after import), so two requests are two independent calls of
  \<^const>\<open>process_order\<close>.
\<close>

end
